theory Spec2Isabelle
  imports Complex_Main "HOL-Library.Monad_Syntax"
begin

section \<open>Tensors\<close>

text \<open>
  A tensor of shape \<open>[b, c, t]\<close> (batch, channel, time) is a list of \<open>b\<close> batch examples,
  each a list of \<open>c\<close> channel rows of \<open>t\<close> values.  The values are real numbers: the
  rounding and the overflow of the floating-point engine are not part of the model, and
  \<open>1e-5\<close> is the rational \<open>1/100000\<close>.  Where a floating-point run overflows to an
  infinity or produces a NaN (the product of an infinity with the 0 of a mask, say), the
  model has an ordinary real number; every statement below is about real arithmetic.

  An operation of the tensor library that raises (a shape mismatch) returns \<open>None\<close>.
  A nested list records the size of an inner axis only through its elements, so a tensor
  with a zero-sized axis has no faithful form here: the operations that read a shape
  (convolution, split, concatenation) return \<open>None\<close> for it as well.
\<close>

type_synonym 'a tensor1 = "'a list"
type_synonym 'a tensor2 = "'a list list"
type_synonym 'a tensor3 = "'a list list list"
type_synonym 'a tensor4 = "'a list list list list"

definition has_shape2 :: "nat \<Rightarrow> nat \<Rightarrow> 'a tensor2 \<Rightarrow> bool" where
  "has_shape2 c t x \<longleftrightarrow> length x = c \<and> list_all (\<lambda>row. length row = t) x"

definition has_shape3 :: "nat \<Rightarrow> nat \<Rightarrow> nat \<Rightarrow> 'a tensor3 \<Rightarrow> bool" where
  "has_shape3 b c t x \<longleftrightarrow> length x = b \<and> list_all (has_shape2 c t) x"

text \<open>The tensor whose entry at \<open>[i, j, k]\<close> is \<open>f i j k\<close>.\<close>

definition tab2 :: "nat \<Rightarrow> nat \<Rightarrow> (nat \<Rightarrow> nat \<Rightarrow> 'a) \<Rightarrow> 'a tensor2" where
  "tab2 c t f = map (\<lambda>j. map (\<lambda>k. f j k) [0..<t]) [0..<c]"

definition tab3 :: "nat \<Rightarrow> nat \<Rightarrow> nat \<Rightarrow> (nat \<Rightarrow> nat \<Rightarrow> nat \<Rightarrow> 'a) \<Rightarrow> 'a tensor3" where
  "tab3 b c t f = map (\<lambda>i. tab2 c t (f i)) [0..<b]"

text \<open>\<open>torch.zeros\<close> and \<open>torch.ones\<close> of a given shape.\<close>

definition zeros3 :: "nat \<Rightarrow> nat \<Rightarrow> nat \<Rightarrow> 'a::zero tensor3" where
  "zeros3 b c t = replicate b (replicate c (replicate t 0))"

definition ones3 :: "nat \<Rightarrow> nat \<Rightarrow> nat \<Rightarrow> 'a::one tensor3" where
  "ones3 b c t = replicate b (replicate c (replicate t 1))"

text \<open>An elementwise function of one tensor (\<open>torch.exp\<close>, \<open>torch.log\<close>, unary minus).\<close>

definition map2d :: "('a \<Rightarrow> 'b) \<Rightarrow> 'a tensor2 \<Rightarrow> 'b tensor2" where
  "map2d f x = map (map f) x"

definition map3 :: "('a \<Rightarrow> 'b) \<Rightarrow> 'a tensor3 \<Rightarrow> 'b tensor3" where
  "map3 f x = map (map2d f) x"

definition map4 :: "('a \<Rightarrow> 'b) \<Rightarrow> 'a tensor4 \<Rightarrow> 'b tensor4" where
  "map4 f x = map (map3 f) x"

text \<open>
  Broadcasting along one axis, as the tensor library does for a binary elementwise
  operation: the two sizes are equal, or one of them is 1 and its single element is
  repeated; any other pair of sizes raises.
\<close>

definition bcast :: "('a \<Rightarrow> 'b \<Rightarrow> 'c option) \<Rightarrow> 'a list \<Rightarrow> 'b list \<Rightarrow> 'c list option" where
  "bcast f xs ys =
     (if length xs = length ys then those (map2 f xs ys)
      else if length ys = 1 then those (map (\<lambda>x. f x (hd ys)) xs)
      else if length xs = 1 then those (map (\<lambda>y. f (hd xs) y) ys)
      else None)"

definition bop3 :: "('a \<Rightarrow> 'b \<Rightarrow> 'c) \<Rightarrow> 'a tensor3 \<Rightarrow> 'b tensor3 \<Rightarrow> 'c tensor3 option" where
  "bop3 f x y = bcast (bcast (bcast (\<lambda>a b. Some (f a b)))) x y"

definition tmul :: "real tensor3 \<Rightarrow> real tensor3 \<Rightarrow> real tensor3 option" where
  "tmul x y = bop3 (*) x y"

definition tadd :: "real tensor3 \<Rightarrow> real tensor3 \<Rightarrow> real tensor3 option" where
  "tadd x y = bop3 (+) x y"

definition tsub :: "real tensor3 \<Rightarrow> real tensor3 \<Rightarrow> real tensor3 option" where
  "tsub x y = bop3 (-) x y"

text \<open>\<open>torch.clamp_min(x, lo)\<close>.\<close>

definition clamp_min :: "real tensor3 \<Rightarrow> real \<Rightarrow> real tensor3" where
  "clamp_min x lo = map3 (\<lambda>v. max v lo) x"

text \<open>\<open>torch.sum(x, [1, 2])\<close>: one sum per batch example, over channels and time.\<close>

definition sum12 :: "real tensor3 \<Rightarrow> real tensor1" where
  "sum12 x = map (\<lambda>xb. sum_list (map sum_list xb)) x"

text \<open>\<open>torch.flip(x, [1])\<close>: the channel axis reversed.\<close>

definition flip1 :: "'a tensor3 \<Rightarrow> 'a tensor3" where
  "flip1 x = map rev x"

text \<open>A parameter of shape \<open>[c, 1]\<close> against a tensor of three axes stands as \<open>[1, c, 1]\<close>.\<close>

definition unsqueeze0 :: "'a tensor2 \<Rightarrow> 'a tensor3" where
  "unsqueeze0 p = [p]"

section \<open>The bijective transforms\<close>

text \<open>
  Every transform returns the pair \<open>(y, logdet)\<close> when \<open>reverse\<close> is false and the
  tensor alone when it is true.
\<close>

datatype 'a flow_result = ForwardResult "'a tensor3" "'a tensor1" | InverseResult "'a tensor3"

fun tensor_of :: "'a flow_result \<Rightarrow> 'a tensor3" where
  "tensor_of (ForwardResult y logdet) = y"
| "tensor_of (InverseResult x) = x"

fun logdet_of :: "'a flow_result \<Rightarrow> 'a tensor1 option" where
  "logdet_of (ForwardResult y logdet) = Some logdet"
| "logdet_of (InverseResult x) = None"

subsection \<open>Log\<close>

definition Log_forward :: "real tensor3 \<Rightarrow> real tensor3 \<Rightarrow> bool \<Rightarrow> real flow_result option" where
  "Log_forward x x_mask reverse =
     (if \<not> reverse then do {
        y \<leftarrow> tmul (map3 ln (clamp_min x (1 / 100000))) x_mask;
        let logdet = sum12 (map3 uminus y);
        Some (ForwardResult y logdet)
      } else do {
        x' \<leftarrow> tmul (map3 exp x) x_mask;
        Some (InverseResult x')
      })"

subsection \<open>ElementwiseAffine\<close>

record ElementwiseAffine =
  ea_channels :: nat
  ea_m :: "real tensor2"
  ea_logs :: "real tensor2"

definition ElementwiseAffine_init :: "nat \<Rightarrow> ElementwiseAffine" where
  "ElementwiseAffine_init channels =
     \<lparr>ea_channels = channels,
      ea_m = replicate channels [0],
      ea_logs = replicate channels [0]\<rparr>"

definition ElementwiseAffine_forward ::
  "ElementwiseAffine \<Rightarrow> real tensor3 \<Rightarrow> real tensor3 \<Rightarrow> bool \<Rightarrow> real flow_result option" where
  "ElementwiseAffine_forward self x x_mask reverse =
     (if \<not> reverse then do {
        e \<leftarrow> tmul (unsqueeze0 (map2d exp (ea_logs self))) x;
        y \<leftarrow> tadd (unsqueeze0 (ea_m self)) e;
        y \<leftarrow> tmul y x_mask;
        l \<leftarrow> tmul (unsqueeze0 (ea_logs self)) x_mask;
        let logdet = sum12 l;
        Some (ForwardResult y logdet)
      } else do {
        d \<leftarrow> tsub x (unsqueeze0 (ea_m self));
        e \<leftarrow> tmul d (unsqueeze0 (map2d exp (map2d uminus (ea_logs self))));
        x' \<leftarrow> tmul e x_mask;
        Some (InverseResult x')
      })"

subsection \<open>Flip\<close>

definition Flip_forward :: "'a::zero tensor3 \<Rightarrow> 'b \<Rightarrow> bool \<Rightarrow> 'a flow_result" where
  "Flip_forward x args reverse =
     (let x = flip1 x in
      if \<not> reverse then
        (let logdet = replicate (length x) 0 in ForwardResult x logdet)
      else InverseResult x)"

section \<open>Convolution, normalisation and the functions taken from outside\<close>

text \<open>
  The shape \<open>[b, c, t]\<close> of a tensor all of whose axes are non-empty; \<open>None\<close> for a
  nested list that is ragged or has an empty axis.
\<close>

definition shape3 :: "'a tensor3 \<Rightarrow> (nat \<times> nat \<times> nat) option" where
  "shape3 x =
     (case x of
        [] \<Rightarrow> None
      | xb # _ \<Rightarrow>
          (case xb of
             [] \<Rightarrow> None
           | row # _ \<Rightarrow>
               if row \<noteq> [] \<and> has_shape3 (length x) (length xb) (length row) x
               then Some (length x, length xb, length row)
               else None))"

text \<open>Indexing a module list: an index out of range raises.\<close>

definition nth_opt :: "'a list \<Rightarrow> nat \<Rightarrow> 'a option" where
  "nth_opt xs i = (if i < length xs then Some (xs ! i) else None)"

text \<open>
  \<open>torch.nn.Conv1d\<close> with stride 1 and zero padding.  The weight has shape
  \<open>[out_channels, in_channels div groups, kernel_size]\<close>, the bias \<open>[out_channels]\<close>.
  The constructor fixes the shapes of weight and bias; their initial values are drawn at
  random by the library, so the constructor takes them as the two functions \<open>w\<close> (the
  weight at each index) and \<open>b\<close> (the bias at each index).  It raises when \<open>groups\<close>
  is zero or does not divide both channel counts.
\<close>

type_synonym conv_params = "(nat \<Rightarrow> nat \<Rightarrow> nat \<Rightarrow> real) \<times> (nat \<Rightarrow> real)"

record Conv1d =
  cv_in_channels :: nat
  cv_out_channels :: nat
  cv_kernel_size :: nat
  cv_padding :: nat
  cv_dilation :: nat
  cv_groups :: nat
  cv_weight :: "real tensor3"
  cv_bias :: "real list"

definition Conv1d_init ::
  "nat \<Rightarrow> nat \<Rightarrow> nat \<Rightarrow> nat \<Rightarrow> nat \<Rightarrow> nat \<Rightarrow> conv_params \<Rightarrow> Conv1d option" where
  "Conv1d_init in_channels out_channels kernel_size padding dilation groups wb =
     (if groups = 0 \<or> in_channels mod groups \<noteq> 0 \<or> out_channels mod groups \<noteq> 0 then None
      else Some
        \<lparr>cv_in_channels = in_channels, cv_out_channels = out_channels,
         cv_kernel_size = kernel_size, cv_padding = padding, cv_dilation = dilation,
         cv_groups = groups,
         cv_weight = tab3 out_channels (in_channels div groups) kernel_size (fst wb),
         cv_bias = map (snd wb) [0..<out_channels]\<rparr>)"

definition pad_row :: "nat \<Rightarrow> real list \<Rightarrow> real list" where
  "pad_row p row = replicate p 0 @ row @ replicate p 0"

text \<open>The value of output channel \<open>oc\<close> at time \<open>t\<close>, from the padded input \<open>xp\<close> of one example.\<close>

definition conv1d_at :: "Conv1d \<Rightarrow> real tensor2 \<Rightarrow> nat \<Rightarrow> nat \<Rightarrow> real" where
  "conv1d_at cv xp oc t =
     (let cin_g = cv_in_channels cv div cv_groups cv;
          cout_g = cv_out_channels cv div cv_groups cv
      in cv_bias cv ! oc +
         (\<Sum>i\<leftarrow>[0..<cin_g]. \<Sum>k\<leftarrow>[0..<cv_kernel_size cv].
            cv_weight cv ! oc ! i ! k *
            xp ! (oc div cout_g * cin_g + i) ! (t + k * cv_dilation cv)))"

definition Conv1d_forward :: "Conv1d \<Rightarrow> real tensor3 \<Rightarrow> real tensor3 option" where
  "Conv1d_forward cv x =
     (case shape3 x of
        None \<Rightarrow> None
      | Some (b, c, t) \<Rightarrow>
          if c \<noteq> cv_in_channels cv \<or> cv_kernel_size cv = 0 \<or> cv_dilation cv = 0 \<or>
             t + 2 * cv_padding cv < cv_dilation cv * (cv_kernel_size cv - 1) + 1
          then None
          else
            (let n = t + 2 * cv_padding cv - cv_dilation cv * (cv_kernel_size cv - 1)
             in Some (map (\<lambda>xb. tab2 (cv_out_channels cv) n
                        (conv1d_at cv (map (pad_row (cv_padding cv)) xb))) x)))"

text \<open>
  \<open>torch.nn.LayerNorm\<close> over the last axis (biased variance), and the class
  \<open>LayerNorm\<close> of the source, which applies it to the channel axis between two
  transpositions.
\<close>

record LayerNorm =
  ln_normalized_shape :: nat
  ln_eps :: real
  ln_weight :: "real list"
  ln_bias :: "real list"

definition LayerNorm_init :: "nat \<Rightarrow> LayerNorm" where
  "LayerNorm_init normalized_shape =
     \<lparr>ln_normalized_shape = normalized_shape, ln_eps = 1 / 100000,
      ln_weight = replicate normalized_shape 1, ln_bias = replicate normalized_shape 0\<rparr>"

definition layer_norm :: "LayerNorm \<Rightarrow> real list \<Rightarrow> real list option" where
  "layer_norm self v =
     (if length v \<noteq> ln_normalized_shape self then None
      else
        (let n = real (length v);
             mean = sum_list v / n;
             var = (\<Sum>a\<leftarrow>v. (a - mean)\<^sup>2) / n
         in Some (map (\<lambda>(a, w, b). (a - mean) / sqrt (var + ln_eps self) * w + b)
                    (zip v (zip (ln_weight self) (ln_bias self))))))"

definition transpose12 :: "'a tensor3 \<Rightarrow> 'a tensor3" where
  "transpose12 x = map transpose x"

definition LayerNorm_forward :: "LayerNorm \<Rightarrow> real tensor3 \<Rightarrow> real tensor3 option" where
  "LayerNorm_forward self x = do {
     y \<leftarrow> those (map (\<lambda>xb. those (map (layer_norm self) xb)) (transpose12 x));
     Some (transpose12 y)
   }"

text \<open>
  Functions the source calls and does not define: the activation \<open>F.gelu\<close> (the Gauss
  error function is not available here), the random part of \<open>nn.Dropout\<close>, and the
  spline kernel \<open>piecewise_rational_quadratic_transform\<close> of the module
  \<open>transforms\<close>, called with \<open>tails='linear'\<close>.  They are parameters of the model.
\<close>

record env =
  F_gelu :: "real \<Rightarrow> real"
  random_dropout :: "real \<Rightarrow> real tensor3 \<Rightarrow> real tensor3"
  piecewise_rational_quadratic_transform ::
    "real tensor3 \<Rightarrow> real tensor4 \<Rightarrow> real tensor4 \<Rightarrow> real tensor4 \<Rightarrow> bool \<Rightarrow> real \<Rightarrow>
     (real tensor3 \<times> real tensor3) option"

text \<open>\<open>nn.Dropout(p)\<close>: with \<open>p = 0\<close> every value is kept and scaled by 1.\<close>

definition Dropout_forward :: "env \<Rightarrow> real \<Rightarrow> real tensor3 \<Rightarrow> real tensor3" where
  "Dropout_forward E p y = (if p = 0 then y else random_dropout E p y)"

text \<open>
  Modelled from the spec: \<open>get_padding\<close> of the module \<open>commons\<close>, which is not among
  the source files.  The spec gives it as
  \<open>get_padding(kernel_size, dilation) -> int\<close>, returning
  \<open>dilation*(kernel_size-1)/2\<close>.
\<close>

definition get_padding :: "nat \<Rightarrow> nat \<Rightarrow> nat" where
  "get_padding kernel_size dilation = dilation * (kernel_size - 1) div 2"

section \<open>DDSConv and DSResBlock\<close>

record DDSConv =
  dds_channels :: nat
  dds_kernel_size :: nat
  dds_n_layers :: nat
  dds_p_dropout :: real
  convs_sep :: "Conv1d list"
  convs_1x1 :: "Conv1d list"
  norms_1 :: "LayerNorm list"
  norms_2 :: "LayerNorm list"

text \<open>
  The loop of the constructor.  \<open>w i\<close> holds the initial parameters the library draws
  for the two convolutions of layer \<open>i\<close>.  Before the loop the constructor builds
  \<open>nn.Dropout(p_dropout)\<close>, which raises for a probability outside \<open>[0, 1]\<close>.
\<close>

fun DDSConv_init_loop ::
  "(nat \<Rightarrow> conv_params \<times> conv_params) \<Rightarrow> nat list \<Rightarrow> DDSConv \<Rightarrow> DDSConv option" where
  "DDSConv_init_loop w [] self = Some self"
| "DDSConv_init_loop w (i # is) self =
     (let channels = dds_channels self;
          kernel_size = dds_kernel_size self;
          dilation = kernel_size ^ i
      in do {
        conv_sep \<leftarrow> Conv1d_init channels channels kernel_size
                      (get_padding kernel_size dilation) dilation channels (fst (w i));
        conv_1x1 \<leftarrow> Conv1d_init channels channels 1 0 1 1 (snd (w i));
        DDSConv_init_loop w is
          (self\<lparr>convs_sep := convs_sep self @ [conv_sep],
                convs_1x1 := convs_1x1 self @ [conv_1x1],
                norms_1 := norms_1 self @ [LayerNorm_init channels],
                norms_2 := norms_2 self @ [LayerNorm_init channels]\<rparr>)
      })"

definition DDSConv_init ::
  "nat \<Rightarrow> nat \<Rightarrow> nat \<Rightarrow> real \<Rightarrow> (nat \<Rightarrow> conv_params \<times> conv_params) \<Rightarrow> DDSConv option" where
  "DDSConv_init channels kernel_size n_layers p_dropout w =
     (if p_dropout < 0 \<or> 1 < p_dropout then None
      else DDSConv_init_loop w [0..<n_layers]
             \<lparr>dds_channels = channels, dds_kernel_size = kernel_size,
              dds_n_layers = n_layers, dds_p_dropout = p_dropout, convs_sep = [],
              convs_1x1 = [], norms_1 = [], norms_2 = []\<rparr>)"

definition apply_mask :: "real tensor3 option \<Rightarrow> real tensor3 \<Rightarrow> real tensor3 option" where
  "apply_mask x_mask x = (case x_mask of None \<Rightarrow> Some x | Some mk \<Rightarrow> tmul x mk)"

fun DDSConv_loop ::
  "env \<Rightarrow> DDSConv \<Rightarrow> real tensor3 option \<Rightarrow> nat list \<Rightarrow> real tensor3 \<Rightarrow> real tensor3 option" where
  "DDSConv_loop E self x_mask [] x = Some x"
| "DDSConv_loop E self x_mask (i # is) x = do {
     x \<leftarrow> apply_mask x_mask x;
     conv_sep \<leftarrow> nth_opt (convs_sep self) i;
     y \<leftarrow> Conv1d_forward conv_sep x;
     norm_1 \<leftarrow> nth_opt (norms_1 self) i;
     y \<leftarrow> LayerNorm_forward norm_1 y;
     let y = map3 (F_gelu E) y;
     conv_1x1 \<leftarrow> nth_opt (convs_1x1 self) i;
     y \<leftarrow> Conv1d_forward conv_1x1 y;
     norm_2 \<leftarrow> nth_opt (norms_2 self) i;
     y \<leftarrow> LayerNorm_forward norm_2 y;
     let y = map3 (F_gelu E) y;
     let y = Dropout_forward E (dds_p_dropout self) y;
     x \<leftarrow> tadd x y;
     x \<leftarrow> apply_mask x_mask x;
     DDSConv_loop E self x_mask is x
   }"

definition DDSConv_forward ::
  "env \<Rightarrow> DDSConv \<Rightarrow> real tensor3 \<Rightarrow> real tensor3 option \<Rightarrow> real tensor3 option \<Rightarrow>
   real tensor3 option" where
  "DDSConv_forward E self x x_mask g = do {
     x \<leftarrow> (case g of None \<Rightarrow> Some x | Some g' \<Rightarrow> tadd x g');
     DDSConv_loop E self x_mask [0..<dds_n_layers self] x
   }"

record DSResBlock =
  dds_conv :: DDSConv

definition DSResBlock_init ::
  "nat \<Rightarrow> nat \<Rightarrow> nat list \<Rightarrow> (nat \<Rightarrow> conv_params \<times> conv_params) \<Rightarrow> DSResBlock option" where
  "DSResBlock_init channels kernel_size dilation w = do {
     dds \<leftarrow> DDSConv_init channels kernel_size 3 0 w;
     Some \<lparr>dds_conv = dds\<rparr>
   }"

definition DSResBlock_forward ::
  "env \<Rightarrow> DSResBlock \<Rightarrow> real tensor3 \<Rightarrow> real tensor3 option \<Rightarrow> real tensor3 option" where
  "DSResBlock_forward E self x x_mask = DDSConv_forward E (dds_conv self) x None None"

section \<open>ConvFlow\<close>

text \<open>
  \<open>torch.split(x, [h, h], 1)\<close>: the two sizes must add up to the size of the channel
  axis, or the library raises.
\<close>

definition split2 :: "nat \<Rightarrow> 'a tensor3 \<Rightarrow> ('a tensor3 \<times> 'a tensor3) option" where
  "split2 h x =
     (case shape3 x of
        None \<Rightarrow> None
      | Some (b, c, t) \<Rightarrow>
          if c \<noteq> h + h then None else Some (map (take h) x, map (drop h) x))"

text \<open>\<open>torch.cat([x, y], 1)\<close>: batch and time sizes must agree.\<close>

definition cat1 :: "'a tensor3 \<Rightarrow> 'a tensor3 \<Rightarrow> 'a tensor3 option" where
  "cat1 x y =
     (case shape3 x of
        None \<Rightarrow> None
      | Some (b, c, t) \<Rightarrow>
          (case shape3 y of
             None \<Rightarrow> None
           | Some (b', c', t') \<Rightarrow>
               if b = b' \<and> t = t' then Some (map2 (@) x y) else None))"

definition tab4 ::
  "nat \<Rightarrow> nat \<Rightarrow> nat \<Rightarrow> nat \<Rightarrow> (nat \<Rightarrow> nat \<Rightarrow> nat \<Rightarrow> nat \<Rightarrow> 'a) \<Rightarrow> 'a tensor4" where
  "tab4 b c t q f = map (\<lambda>i. tab3 c t q (f i)) [0..<b]"

text \<open>
  \<open>h.reshape(b, c, -1, t).permute(0, 1, 3, 2)\<close>.  The reshape reads the values in
  row-major order, so entry \<open>[i, j, r, k]\<close> of the reshaped tensor is the value at
  position \<open>((i * c + j) * q + r) * t + k\<close>, where \<open>q\<close> is the inferred size; the
  permutation swaps the last two axes.  The size \<open>-1\<close> cannot be inferred when
  \<open>b * c * t\<close> is zero or does not divide the number of values.
\<close>

definition reshape_permute :: "nat \<Rightarrow> nat \<Rightarrow> nat \<Rightarrow> 'a tensor3 \<Rightarrow> 'a tensor4 option" where
  "reshape_permute b c t h =
     (let flat = concat (concat h); n = length flat
      in if b * c * t = 0 \<or> n mod (b * c * t) \<noteq> 0 then None
         else
           (let q = n div (b * c * t)
            in Some (tab4 b c t q (\<lambda>i j k r. flat ! (((i * c + j) * q + r) * t + k)))))"

text \<open>The slices \<open>h[..., lo:hi]\<close> and \<open>h[..., lo:]\<close> of the last axis.\<close>

definition slice_last :: "nat \<Rightarrow> nat \<Rightarrow> 'a tensor4 \<Rightarrow> 'a tensor4" where
  "slice_last lo hi h = map3 (\<lambda>v. drop lo (take hi v)) h"

definition slice_last_from :: "nat \<Rightarrow> 'a tensor4 \<Rightarrow> 'a tensor4" where
  "slice_last_from lo h = map3 (drop lo) h"

record ConvFlow =
  cf_in_channels :: nat
  cf_filter_channels :: nat
  cf_kernel_size :: nat
  cf_n_layers :: nat
  cf_num_bins :: nat
  cf_tail_bound :: real
  cf_half_channels :: nat
  cf_pre :: Conv1d
  cf_convs :: DDSConv
  cf_proj :: Conv1d

text \<open>
  The constructor.  \<open>w_pre\<close>, \<open>w_convs\<close> and \<open>w_proj\<close> are the initial parameters the
  library draws; those of \<open>proj\<close> are then overwritten with zeros.  The number of
  output channels of \<open>proj\<close> is computed on integers, and a negative one makes the
  construction of \<open>proj\<close> raise.
\<close>

definition ConvFlow_init ::
  "nat \<Rightarrow> nat \<Rightarrow> nat \<Rightarrow> nat \<Rightarrow> nat \<Rightarrow> real \<Rightarrow>
   conv_params \<Rightarrow> (nat \<Rightarrow> conv_params \<times> conv_params) \<Rightarrow> conv_params \<Rightarrow> ConvFlow option" where
  "ConvFlow_init in_channels filter_channels kernel_size n_layers num_bins tail_bound
     w_pre w_convs w_proj =
     (let half_channels = in_channels div 2 in do {
        pre \<leftarrow> Conv1d_init half_channels filter_channels 1 0 1 1 w_pre;
        convs \<leftarrow> DDSConv_init filter_channels kernel_size n_layers 0 w_convs;
        let proj_channels = int half_channels * (int num_bins * 3 - 1);
        proj \<leftarrow> (if proj_channels < 0 then None
                 else Conv1d_init filter_channels (nat proj_channels) 1 0 1 1 w_proj);
        let proj = proj\<lparr>cv_weight := map3 (\<lambda>_. 0) (cv_weight proj)\<rparr>;
        let proj = proj\<lparr>cv_bias := map (\<lambda>_. 0) (cv_bias proj)\<rparr>;
        Some \<lparr>cf_in_channels = in_channels, cf_filter_channels = filter_channels,
              cf_kernel_size = kernel_size, cf_n_layers = n_layers,
              cf_num_bins = num_bins, cf_tail_bound = tail_bound,
              cf_half_channels = half_channels, cf_pre = pre, cf_convs = convs,
              cf_proj = proj\<rparr>
      })"

text \<open>
  The first part of \<open>ConvFlow.forward\<close>, from \<open>self.pre\<close> to the three slices: the
  unnormalized widths, heights and derivatives of the spline, predicted from \<open>x0\<close>.
\<close>

definition ConvFlow_spline_params ::
  "env \<Rightarrow> ConvFlow \<Rightarrow> real tensor3 \<Rightarrow> real tensor3 \<Rightarrow> real tensor3 option \<Rightarrow>
   (real tensor4 \<times> real tensor4 \<times> real tensor4) option" where
  "ConvFlow_spline_params E self x0 x_mask g = do {
     h \<leftarrow> Conv1d_forward (cf_pre self) x0;
     h \<leftarrow> DDSConv_forward E (cf_convs self) h (Some x_mask) g;
     h \<leftarrow> Conv1d_forward (cf_proj self) h;
     h \<leftarrow> tmul h x_mask;
     (b, c, t) \<leftarrow> shape3 x0;
     h \<leftarrow> reshape_permute b c t h;
     let unnormalized_widths =
           map4 (\<lambda>v. v / sqrt (real (cf_filter_channels self)))
             (slice_last 0 (cf_num_bins self) h);
     let unnormalized_heights =
           map4 (\<lambda>v. v / sqrt (real (cf_filter_channels self)))
             (slice_last (cf_num_bins self) (2 * cf_num_bins self) h);
     let unnormalized_derivatives = slice_last_from (2 * cf_num_bins self) h;
     Some (unnormalized_widths, unnormalized_heights, unnormalized_derivatives)
   }"

definition ConvFlow_forward ::
  "env \<Rightarrow> ConvFlow \<Rightarrow> real tensor3 \<Rightarrow> real tensor3 \<Rightarrow> real tensor3 option \<Rightarrow> bool \<Rightarrow>
   real flow_result option" where
  "ConvFlow_forward E self x x_mask g reverse = do {
     (x0, x1) \<leftarrow> split2 (cf_half_channels self) x;
     (unnormalized_widths, unnormalized_heights, unnormalized_derivatives) \<leftarrow>
       ConvFlow_spline_params E self x0 x_mask g;
     (x1, logabsdet) \<leftarrow>
       piecewise_rational_quadratic_transform E x1 unnormalized_widths unnormalized_heights
         unnormalized_derivatives reverse (cf_tail_bound self);
     xc \<leftarrow> cat1 x0 x1;
     x \<leftarrow> tmul xc x_mask;
     l \<leftarrow> tmul logabsdet x_mask;
     let logdet = sum12 l;
     if \<not> reverse then Some (ForwardResult x logdet) else Some (InverseResult x)
   }"

section \<open>The inverse of ElementwiseAffine in the words of the specification\<close>

text \<open>
  The specification gives the inverse as \<open>x = (y/mask - m) * exp(-logs) * mask\<close>: the
  input is divided by the mask before \<open>m\<close> is subtracted.  A quotient by zero is no real
  number (in floating point it is an infinity or a NaN, and the later product with the
  zero of the mask leaves a NaN), so an entry of this tensor is \<open>None\<close> where the formula
  divides by zero.  This definition follows the specification, not the source; it is
  compared with \<open>ElementwiseAffine_forward\<close> in reverse mode.
\<close>

definition div_entry :: "real \<Rightarrow> real \<Rightarrow> real option" where
  "div_entry a b = (if b = 0 then None else Some (a / b))"

definition ElementwiseAffine_inverse_spec ::
  "ElementwiseAffine \<Rightarrow> real tensor3 \<Rightarrow> real tensor3 \<Rightarrow> real option tensor3 option" where
  "ElementwiseAffine_inverse_spec self y x_mask = do {
     q \<leftarrow> bop3 div_entry y x_mask;
     d \<leftarrow> bop3 (\<lambda>a v. map_option (\<lambda>a'. a' - v) a) q (unsqueeze0 (ea_m self));
     e \<leftarrow> bop3 (\<lambda>a v. map_option (\<lambda>a'. a' * v) a) d
           (unsqueeze0 (map2d exp (map2d uminus (ea_logs self))));
     bop3 (\<lambda>a v. map_option (\<lambda>a'. a' * v) a) e x_mask
   }"

section \<open>Tensors of zeros\<close>

definition all_zero3 :: "real tensor3 \<Rightarrow> bool" where
  "all_zero3 x \<longleftrightarrow> list_all (list_all (list_all (\<lambda>v. v = 0))) x"

definition all_zero4 :: "real tensor4 \<Rightarrow> bool" where
  "all_zero4 x \<longleftrightarrow> list_all all_zero3 x"

section \<open>Masks, and the assumptions on the spline kernel\<close>

text \<open>A mask has the values 0 (padded) and 1 (valid) only.\<close>

definition binary_mask :: "real tensor3 \<Rightarrow> bool" where
  "binary_mask x_mask \<longleftrightarrow> list_all (list_all (list_all (\<lambda>v. v = 0 \<or> v = 1))) x_mask"

text \<open>
  Modelled from the spec: the spline kernel is not among the source files.  The
  specification describes it as a bijection applied to each value of \<open>x\<close> with the
  parameters predicted for that position, whose inverse mode undoes its forward mode.
  \<open>pointwise_kernel s\<close> applies the scalar map \<open>s\<close> at every position of \<open>x\<close>, to the
  value and the three parameter vectors of that position, and returns the values and
  the log-derivatives; \<open>kernel_inverse s\<close> says that \<open>s\<close> in inverse mode undoes \<open>s\<close> in
  forward mode.
\<close>

type_synonym scalar_kernel =
  "real \<Rightarrow> real list \<Rightarrow> real list \<Rightarrow> real list \<Rightarrow> bool \<Rightarrow> real \<Rightarrow> real \<times> real"

definition pointwise_kernel ::
  "scalar_kernel \<Rightarrow> real tensor3 \<Rightarrow> real tensor4 \<Rightarrow> real tensor4 \<Rightarrow> real tensor4 \<Rightarrow> bool \<Rightarrow> real \<Rightarrow>
   (real tensor3 \<times> real tensor3) option" where
  "pointwise_kernel s x uw uh ud reverse tail_bound =
     (case shape3 x of
        None \<Rightarrow> None
      | Some (b, c, t) \<Rightarrow>
          if has_shape3 b c t uw \<and> has_shape3 b c t uh \<and> has_shape3 b c t ud then
            Some (tab3 b c t (\<lambda>i j k. fst (s (x ! i ! j ! k) (uw ! i ! j ! k) (uh ! i ! j ! k)
                                            (ud ! i ! j ! k) reverse tail_bound)),
                  tab3 b c t (\<lambda>i j k. snd (s (x ! i ! j ! k) (uw ! i ! j ! k) (uh ! i ! j ! k)
                                            (ud ! i ! j ! k) reverse tail_bound)))
          else None)"

definition kernel_inverse :: "scalar_kernel \<Rightarrow> bool" where
  "kernel_inverse s \<longleftrightarrow>
     (\<forall>v w h d tail_bound.
        fst (s (fst (s v w h d False tail_bound)) w h d True tail_bound) = v)"

text \<open>
  A convolution of kernel size 1 without padding, as the constructor of ConvFlow builds
  \<open>pre\<close> and \<open>proj\<close>: its output at a time step is computed from the input at that time
  step alone.
\<close>

definition pointwise_conv :: "Conv1d \<Rightarrow> bool" where
  "pointwise_conv cv \<longleftrightarrow>
     cv_kernel_size cv = 1 \<and> cv_padding cv = 0 \<and> cv_dilation cv = 1 \<and> cv_groups cv = 1"

definition conv1x1_at :: "Conv1d \<Rightarrow> (nat \<Rightarrow> real) \<Rightarrow> nat \<Rightarrow> real" where
  "conv1x1_at cv u oc =
     cv_bias cv ! oc + (\<Sum>j\<leftarrow>[0..<cv_in_channels cv]. cv_weight cv ! oc ! j ! 0 * u j)"

text \<open>
  The conditioning tensor of DDSConv is absent, or has the shape \<open>[b, c, t]\<close> of the
  tensor it is added to, or repeats one value over time (\<open>[b, c, 1]\<close>).
\<close>

definition cond_shape :: "nat \<Rightarrow> nat \<Rightarrow> nat \<Rightarrow> real tensor3 option \<Rightarrow> bool" where
  "cond_shape b c t g \<longleftrightarrow>
     (case g of None \<Rightarrow> True | Some g' \<Rightarrow> has_shape3 b c t g' \<or> has_shape3 b c 1 g')"

section \<open>Parameters for the closed examples\<close>

text \<open>
  The closed examples need values for the three functions of \<open>env\<close>.  For \<open>F.gelu\<close>
  they take its \<open>tanh\<close> approximation, and they apply it only at 0, where it and the
  exact function are both 0.  For the spline kernel \<open>example_env\<close> takes the map that
  passes every value through with log-derivative 0, which is what linear tails of slope
  1 do to a value outside \<open>[-tail_bound, tail_bound]\<close>; \<open>affine_env\<close> takes the map
  \<open>v \<mapsto> 2 * v + 1\<close>, whose inverse mode is \<open>v \<mapsto> (v - 1) / 2\<close>.
\<close>

definition gelu_tanh :: "real \<Rightarrow> real" where
  "gelu_tanh v = v / 2 * (1 + tanh (sqrt (2 / pi) * (v + 44715 / 1000000 * v ^ 3)))"

definition identity_spline :: scalar_kernel where
  "identity_spline v w h d reverse tail_bound = (v, 0)"

definition affine_spline :: scalar_kernel where
  "affine_spline v w h d reverse tail_bound =
     (if reverse then ((v - 1) / 2, - ln 2) else (2 * v + 1, ln 2))"

definition example_env :: env where
  "example_env =
     \<lparr>F_gelu = gelu_tanh, random_dropout = (\<lambda>p y. y),
      piecewise_rational_quadratic_transform = pointwise_kernel identity_spline\<rparr>"

definition affine_env :: env where
  "affine_env =
     \<lparr>F_gelu = gelu_tanh, random_dropout = (\<lambda>p y. y),
      piecewise_rational_quadratic_transform = pointwise_kernel affine_spline\<rparr>"

text \<open>
  Initial parameters (every weight 1, every bias 0), and a ConvFlow constructed from
  them: two channels, one filter channel, one layer of kernel size 3, two bins and tail
  bound 5.
\<close>

definition example_w :: conv_params where
  "example_w = (\<lambda>oc i k. 1, \<lambda>oc. 0)"

definition example_flow :: "ConvFlow option" where
  "example_flow = ConvFlow_init 2 1 3 1 2 5 example_w (\<lambda>i. (example_w, example_w)) example_w"

section \<open>Sizes and indices under broadcasting\<close>

text \<open>
  Two sizes broadcast when they are equal or one of them is 1; \<open>bsize\<close> is the size of
  the result and \<open>bix n i\<close> the index read from an operand of size \<open>n\<close> for position
  \<open>i\<close> of the result.
\<close>

definition compat :: "nat \<Rightarrow> nat \<Rightarrow> bool" where
  "compat n m \<longleftrightarrow> n = m \<or> n = 1 \<or> m = 1"

definition bsize :: "nat \<Rightarrow> nat \<Rightarrow> nat" where
  "bsize n m = (if n = 1 then m else n)"

definition bix :: "nat \<Rightarrow> nat \<Rightarrow> nat" where
  "bix n i = (if n = 1 then 0 else i)"

section \<open>Basic facts about tensors\<close>


lemma those_map_Some:
  "(\<And>x. x \<in> set xs \<Longrightarrow> f x = Some (g x)) \<Longrightarrow> those (map f xs) = Some (map g xs)"
  by (induction xs) simp_all

lemma those_eq_Some_length:
  "those xs = Some ys \<Longrightarrow> length ys = length xs"
  by (induction xs arbitrary: ys) (auto split: option.splits)

lemma those_eq_Some_nth:
  "those xs = Some ys \<Longrightarrow> i < length xs \<Longrightarrow> xs ! i = Some (ys ! i)"
proof (induction xs arbitrary: ys i)
  case Nil
  then show ?case by simp
next
  case (Cons a xs)
  then show ?case by (cases i) (auto split: option.splits)
qed

lemma map2_upt:
  "map2 f (map g [0..<n]) (map h [0..<n]) = map (\<lambda>i. f (g i) (h i)) [0..<n]"
  by (rule nth_equalityI) simp_all

lemma bcast_tab:
  assumes "compat n m"
  shows "bcast f (map g [0..<n]) (map h [0..<m]) =
         those (map (\<lambda>i. f (g (bix n i)) (h (bix m i))) [0..<bsize n m])"
proof (cases "n = m")
  case True
  show ?thesis
  proof (cases "n = 1")
    case True
    with \<open>n = m\<close> have "m = 1" by simp
    with True show ?thesis by (simp add: bcast_def bsize_def bix_def)
  next
    case False
    with \<open>n = m\<close> show ?thesis
      by (simp add: bcast_def bsize_def bix_def map2_upt del: upt_Suc)
  qed
next
  case False
  with assms have "n = 1 \<or> m = 1" by (simp add: compat_def)
  with False show ?thesis
    by (auto simp add: bcast_def bsize_def bix_def hd_map comp_def simp del: upt_Suc)
qed

lemma bop3_tab:
  assumes "compat b b'" "compat c c'" "compat t t'"
  shows "bop3 f (tab3 b c t u) (tab3 b' c' t' v) =
         Some (tab3 (bsize b b') (bsize c c') (bsize t t')
           (\<lambda>i j k. f (u (bix b i) (bix c j) (bix t k)) (v (bix b' i) (bix c' j) (bix t' k))))"
  unfolding bop3_def tab3_def tab2_def
  by (simp add: bcast_tab [OF assms(1)] bcast_tab [OF assms(2)] bcast_tab [OF assms(3)] those_map_Some
      del: upt_Suc)


lemma tab2_nth: "j < c \<Longrightarrow> k < t \<Longrightarrow> tab2 c t f ! j ! k = f j k"
  by (simp add: tab2_def)

lemma tab3_nth: "i < b \<Longrightarrow> j < c \<Longrightarrow> k < t \<Longrightarrow> tab3 b c t f ! i ! j ! k = f i j k"
  by (simp add: tab3_def tab2_def)

lemma length_tab3 [simp]: "length (tab3 b c t f) = b"
  by (simp add: tab3_def)

lemma has_shape2_tab2 [simp]: "has_shape2 c t (tab2 c t f)"
  by (simp add: has_shape2_def tab2_def list_all_iff)

lemma has_shape3_tab3 [simp]: "has_shape3 b c t (tab3 b c t f)"
  by (simp add: has_shape3_def tab3_def list_all_iff)

lemma has_shape2_tab:
  assumes "has_shape2 c t x"
  shows "x = tab2 c t (\<lambda>j k. x ! j ! k)"
proof -
  have len: "length x = c" and rows: "\<And>j. j < c \<Longrightarrow> length (x ! j) = t"
    using assms by (auto simp add: has_shape2_def list_all_length)
  show ?thesis
    unfolding tab2_def
    by (rule nth_equalityI) (auto simp add: len rows intro!: nth_equalityI)
qed

lemma has_shape3_tab:
  assumes "has_shape3 b c t x"
  shows "x = tab3 b c t (\<lambda>i j k. x ! i ! j ! k)"
proof -
  have len: "length x = b" and rows: "\<And>i. i < b \<Longrightarrow> has_shape2 c t (x ! i)"
    using assms by (auto simp add: has_shape3_def list_all_length)
  show ?thesis
    unfolding tab3_def
  proof (rule nth_equalityI)
    show "length x = length (map (\<lambda>i. tab2 c t (\<lambda>j k. x ! i ! j ! k)) [0..<b])"
      by (simp add: len)
  next
    fix i assume "i < length x"
    then have "i < b" by (simp add: len)
    then show "x ! i = map (\<lambda>i. tab2 c t (\<lambda>j k. x ! i ! j ! k)) [0..<b] ! i"
      using has_shape2_tab [OF rows [OF \<open>i < b\<close>]] by simp
  qed
qed

lemma tab2_cong:
  "(\<And>j k. j < c \<Longrightarrow> k < t \<Longrightarrow> f j k = g j k) \<Longrightarrow> tab2 c t f = tab2 c t g"
  by (simp add: tab2_def)

lemma tab3_cong:
  "(\<And>i j k. i < b \<Longrightarrow> j < c \<Longrightarrow> k < t \<Longrightarrow> f i j k = g i j k) \<Longrightarrow> tab3 b c t f = tab3 b c t g"
  by (simp add: tab3_def tab2_def)

lemma map3_tab3: "map3 h (tab3 b c t f) = tab3 b c t (\<lambda>i j k. h (f i j k))"
  by (simp add: map3_def map2d_def tab3_def tab2_def)

lemma clamp_min_tab3: "clamp_min (tab3 b c t f) lo = tab3 b c t (\<lambda>i j k. max (f i j k) lo)"
  by (simp add: clamp_min_def map3_tab3)

lemma sum12_tab3:
  "sum12 (tab3 b c t f) = map (\<lambda>i. \<Sum>j\<leftarrow>[0..<c]. \<Sum>k\<leftarrow>[0..<t]. f i j k) [0..<b]"
  by (simp add: sum12_def tab3_def tab2_def comp_def)

lemma unsqueeze0_tab: "has_shape2 c t p \<Longrightarrow> unsqueeze0 p = tab3 1 c t (\<lambda>i j k. p ! j ! k)"
  using has_shape2_tab [of c t p] by (simp add: unsqueeze0_def tab3_def)

section \<open>Flip\<close>

lemma flip1_flip1: "flip1 (flip1 x) = x"
  by (simp add: flip1_def comp_def)

text \<open>
  C6.  Applying Flip twice returns the input exactly, whatever the type of the values and
  whichever of the two modes each application runs in; and in forward mode the logdet is
  a vector of zeros with one entry per batch example.
\<close>

theorem C6_Flip_self_inverse:
  "tensor_of (Flip_forward (tensor_of (Flip_forward x args reverse)) args' reverse') = x \<and>
   logdet_of (Flip_forward x args False) = Some (replicate (length x) 0) \<and>
   logdet_of (Flip_forward (tensor_of (Flip_forward x args False)) args' False)
     = Some (replicate (length x) 0)"
  by (cases reverse; cases reverse')
     (simp_all add: Flip_forward_def Let_def flip1_flip1, simp_all add: flip1_def)

section \<open>Broadcasting on tabulated tensors\<close>

lemma compat_simps [simp]: "compat n n" "compat n 1" "compat 1 n" "compat n (Suc 0)" "compat (Suc 0) n"
  by (simp_all add: compat_def)

lemma bsize_simps [simp]: "bsize n n = n" "bsize n 1 = n" "bsize 1 n = n" "bsize n (Suc 0) = n" "bsize (Suc 0) n = n"
  by (simp_all add: bsize_def)

lemma bix_simps [simp]: "bix 1 i = 0" "bix (Suc 0) i = 0" "i < n \<Longrightarrow> bix n i = i"
  by (auto simp add: bix_def)

lemma tab3_cong' [cong]:
  "b = b' \<Longrightarrow> c = c' \<Longrightarrow> t = t' \<Longrightarrow>
   (\<And>i j k. i < b' \<Longrightarrow> j < c' \<Longrightarrow> k < t' \<Longrightarrow> f i j k = g i j k) \<Longrightarrow>
   tab3 b c t f = tab3 b' c' t' g"
  by (simp add: tab3_def tab2_def)

lemma ones3_tab3: "ones3 b c t = tab3 b c t (\<lambda>i j k. 1)"
  by (simp add: ones3_def tab3_def tab2_def map_replicate_const)

lemma zeros3_tab3: "zeros3 b c t = tab3 b c t (\<lambda>i j k. 0)"
  by (simp add: zeros3_def tab3_def tab2_def map_replicate_const)

text \<open>The broadcasts the transforms use: a mask of shape \<open>[b, 1, t]\<close>, a parameter of shape \<open>[1, c, 1]\<close>.\<close>

lemma bop3_mask:
  "bop3 f (tab3 b c t u) (tab3 b (Suc 0) t v) = Some (tab3 b c t (\<lambda>i j k. f (u i j k) (v i 0 k)))"
  by (simp add: bop3_tab)

lemma bop3_param_l:
  "bop3 f (tab3 (Suc 0) c (Suc 0) p) (tab3 b c t u) = Some (tab3 b c t (\<lambda>i j k. f (p 0 j 0) (u i j k)))"
  by (simp add: bop3_tab)

lemma bop3_param_r:
  "bop3 f (tab3 b c t u) (tab3 (Suc 0) c (Suc 0) p) = Some (tab3 b c t (\<lambda>i j k. f (u i j k) (p 0 j 0)))"
  by (simp add: bop3_tab)

lemma bop3_param_mask:
  "bop3 f (tab3 (Suc 0) c (Suc 0) p) (tab3 b (Suc 0) t v) = Some (tab3 b c t (\<lambda>i j k. f (p 0 j 0) (v i 0 k)))"
  by (simp add: bop3_tab)

lemmas tab_eval = tab3_def tab2_def sum12_def has_shape3_def has_shape2_def

section \<open>Log\<close>

lemma Log_forward_tab:
  "Log_forward (tab3 b c t u) (tab3 b (Suc 0) t v) False =
     Some (ForwardResult (tab3 b c t (\<lambda>i j k. ln (max (u i j k) (1 / 100000)) * v i 0 k))
            (sum12 (tab3 b c t (\<lambda>i j k. - (ln (max (u i j k) (1 / 100000)) * v i 0 k)))))"
  by (simp add: Log_forward_def tmul_def clamp_min_tab3 map3_tab3 bop3_mask)

lemma Log_reverse_tab:
  "Log_forward (tab3 b c t u) (tab3 b (Suc 0) t v) True =
     Some (InverseResult (tab3 b c t (\<lambda>i j k. exp (u i j k) * v i 0 k)))"
  by (simp add: Log_forward_def tmul_def map3_tab3 bop3_mask)

lemma sum12_zero: "sum12 (tab3 b c t (\<lambda>i j k. 0)) = replicate b 0"
  by (simp add: sum12_tab3 map_replicate_const sum_list_replicate)

text \<open>
  C5.  In forward mode Log clamps its input to a minimum of \<open>1e-5\<close>, takes the logarithm
  and multiplies by the mask; the logdet is the sum of the negated output over channels
  and time.  For an input of ones with a mask of ones the output is all zeros and the
  logdet is 0 for every batch example.
\<close>

theorem C5_Log_forward:
  "Log_forward (ones3 b c t) (ones3 b 1 t) False
     = Some (ForwardResult (zeros3 b c t) (replicate b 0)) \<and>
   (has_shape3 b c t x \<longrightarrow> has_shape3 b 1 t x_mask \<longrightarrow>
    Log_forward x x_mask False
      = Some (ForwardResult
          (tab3 b c t (\<lambda>i j k. ln (max (x ! i ! j ! k) (1 / 100000)) * x_mask ! i ! 0 ! k))
          (sum12 (tab3 b c t
             (\<lambda>i j k. - (ln (max (x ! i ! j ! k) (1 / 100000)) * x_mask ! i ! 0 ! k))))))"
proof (intro conjI impI)
  show "Log_forward (ones3 b c t) (ones3 b 1 t) False
     = Some (ForwardResult (zeros3 b c t) (replicate b 0))"
    by (simp add: ones3_tab3 zeros3_tab3 Log_forward_tab sum12_zero)
next
  assume x: "has_shape3 b c t x" and mk: "has_shape3 b 1 t x_mask"
  show "Log_forward x x_mask False
      = Some (ForwardResult
          (tab3 b c t (\<lambda>i j k. ln (max (x ! i ! j ! k) (1 / 100000)) * x_mask ! i ! 0 ! k))
          (sum12 (tab3 b c t
             (\<lambda>i j k. - (ln (max (x ! i ! j ! k) (1 / 100000)) * x_mask ! i ! 0 ! k)))))"
    using Log_forward_tab [of b c t "\<lambda>i j k. x ! i ! j ! k" "\<lambda>i j k. x_mask ! i ! j ! k"]
      has_shape3_tab [OF x] has_shape3_tab [OF mk] by simp
qed

theorem C5_Log_forward_witness:
  "has_shape3 1 2 2 [[[1, 2], [0, - 1 :: real]]] \<and> has_shape3 1 1 2 [[[1, 0 :: real]]] \<and>
   Log_forward [[[1, 2], [0, - 1]]] [[[1, 0]]] False
     = Some (ForwardResult [[[0, 0], [ln (1 / 100000), 0]]] [- ln (1 / 100000)]) \<and>
   Log_forward (ones3 1 2 2) (ones3 1 1 2) False
     = Some (ForwardResult [[[0, 0], [0, 0]]] [0])"
  using C5_Log_forward [of 1 2 2 "[[[1, 2], [0, - 1]]]" "[[[1, 0]]]"]
  by (simp add: tab_eval zeros3_def eval_nat_numeral)

section \<open>ElementwiseAffine\<close>

lemma unsqueeze0_tab':
  "has_shape2 c (Suc 0) p \<Longrightarrow> unsqueeze0 p = tab3 (Suc 0) c (Suc 0) (\<lambda>i j k. p ! j ! k)"
  using unsqueeze0_tab [of c "Suc 0" p] by simp

lemma map2d_shape: "has_shape2 c t p \<Longrightarrow> has_shape2 c t (map2d f p)"
  by (simp add: has_shape2_def map2d_def list_all_iff)

lemma map2d_nth: "has_shape2 c t p \<Longrightarrow> j < c \<Longrightarrow> k < t \<Longrightarrow> map2d f p ! j ! k = f (p ! j ! k)"
  by (simp add: has_shape2_def map2d_def list_all_length)

lemma ElementwiseAffine_forward_tab:
  assumes m: "has_shape2 c (Suc 0) (ea_m self)" and l: "has_shape2 c (Suc 0) (ea_logs self)"
  shows "ElementwiseAffine_forward self (tab3 b c t u) (tab3 b (Suc 0) t v) False =
     Some (ForwardResult
       (tab3 b c t (\<lambda>i j k. (ea_m self ! j ! 0 + exp (ea_logs self ! j ! 0) * u i j k) * v i 0 k))
       (sum12 (tab3 b c t (\<lambda>i j k. ea_logs self ! j ! 0 * v i 0 k))))"
  by (simp add: ElementwiseAffine_forward_def tmul_def tadd_def
      unsqueeze0_tab' [OF m] unsqueeze0_tab' [OF l] unsqueeze0_tab' [OF map2d_shape [OF l]]
      bop3_mask bop3_param_l bop3_param_mask map2d_nth [OF l])

lemma ElementwiseAffine_reverse_tab:
  assumes m: "has_shape2 c (Suc 0) (ea_m self)" and l: "has_shape2 c (Suc 0) (ea_logs self)"
  shows "ElementwiseAffine_forward self (tab3 b c t u) (tab3 b (Suc 0) t v) True =
     Some (InverseResult
       (tab3 b c t (\<lambda>i j k. (u i j k - ea_m self ! j ! 0) * exp (- ea_logs self ! j ! 0) * v i 0 k)))"
  by (simp add: ElementwiseAffine_forward_def tmul_def tsub_def
      unsqueeze0_tab' [OF m] unsqueeze0_tab' [OF map2d_shape [OF map2d_shape [OF l]]]
      bop3_mask bop3_param_r map2d_nth [OF l] map2d_nth [OF map2d_shape [OF l]])

text \<open>
  C3.  With parameters of shape \<open>[c, 1]\<close>, an input of shape \<open>[b, c, t]\<close> and a mask of
  shape \<open>[b, 1, t]\<close>, the logdet ElementwiseAffine returns in forward mode has one entry
  per batch example, the sum of \<open>logs * mask\<close> over channels and time.  The input does
  not occur in it: any two inputs \<open>x\<close> and \<open>x'\<close> get the same logdet.
\<close>

theorem C3_ElementwiseAffine_logdet:
  assumes "has_shape3 b c t x" and "has_shape3 b c t x'" and "has_shape3 b 1 t x_mask"
    and "has_shape2 c 1 (ea_m self)" and "has_shape2 c 1 (ea_logs self)"
  shows "ElementwiseAffine_forward self x x_mask False =
           Some (ForwardResult
             (tab3 b c t (\<lambda>i j k.
                (ea_m self ! j ! 0 + exp (ea_logs self ! j ! 0) * x ! i ! j ! k) *
                x_mask ! i ! 0 ! k))
             (map (\<lambda>i. \<Sum>j\<leftarrow>[0..<c]. \<Sum>k\<leftarrow>[0..<t]. ea_logs self ! j ! 0 * x_mask ! i ! 0 ! k)
                [0..<b])) \<and>
         ElementwiseAffine_forward self x' x_mask False =
           Some (ForwardResult
             (tab3 b c t (\<lambda>i j k.
                (ea_m self ! j ! 0 + exp (ea_logs self ! j ! 0) * x' ! i ! j ! k) *
                x_mask ! i ! 0 ! k))
             (map (\<lambda>i. \<Sum>j\<leftarrow>[0..<c]. \<Sum>k\<leftarrow>[0..<t]. ea_logs self ! j ! 0 * x_mask ! i ! 0 ! k)
                [0..<b]))"
proof -
  have m: "has_shape2 c (Suc 0) (ea_m self)" and l: "has_shape2 c (Suc 0) (ea_logs self)"
    using assms by simp_all
  have mk: "x_mask = tab3 b (Suc 0) t (\<lambda>i j k. x_mask ! i ! j ! k)"
    using has_shape3_tab [OF assms(3)] by simp
  have fw: "ElementwiseAffine_forward self z x_mask False =
     Some (ForwardResult
       (tab3 b c t (\<lambda>i j k. (ea_m self ! j ! 0 + exp (ea_logs self ! j ! 0) * z ! i ! j ! k)
          * x_mask ! i ! 0 ! k))
       (sum12 (tab3 b c t (\<lambda>i j k. ea_logs self ! j ! 0 * x_mask ! i ! 0 ! k))))"
    if "has_shape3 b c t z" for z
    using ElementwiseAffine_forward_tab [OF m l, of b t "\<lambda>i j k. z ! i ! j ! k"
        "\<lambda>i j k. x_mask ! i ! j ! k"] has_shape3_tab [OF that] mk by simp
  show ?thesis
    using fw [OF assms(1)] fw [OF assms(2)] by (simp add: sum12_tab3)
qed

theorem C3_ElementwiseAffine_logdet_witness:
  "has_shape3 1 2 2 [[[1, 2], [0, - 1 :: real]]] \<and> has_shape3 1 2 2 [[[5, 5], [5, 5 :: real]]] \<and>
   has_shape3 1 1 2 [[[1, 0 :: real]]] \<and>
   has_shape2 2 1 (ea_m \<lparr>ea_channels = 2, ea_m = [[1], [2]], ea_logs = [[0], [1]]\<rparr>) \<and>
   has_shape2 2 1 (ea_logs \<lparr>ea_channels = 2, ea_m = [[1], [2]], ea_logs = [[0], [1]]\<rparr>) \<and>
   ElementwiseAffine_forward \<lparr>ea_channels = 2, ea_m = [[1], [2]], ea_logs = [[0], [1]]\<rparr>
     [[[1, 2], [0, - 1]]] [[[1, 0]]] False
     = Some (ForwardResult [[[2, 0], [2, 0]]] [1]) \<and>
   ElementwiseAffine_forward \<lparr>ea_channels = 2, ea_m = [[1], [2]], ea_logs = [[0], [1]]\<rparr>
     [[[5, 5], [5, 5]]] [[[1, 0]]] False
     = Some (ForwardResult [[[6, 0], [2 + exp 1 * 5, 0]]] [1])"
  using C3_ElementwiseAffine_logdet [of 1 2 2 "[[[1, 2], [0, - 1]]]" "[[[5, 5], [5, 5]]]"
      "[[[1, 0]]]" "\<lparr>ea_channels = 2, ea_m = [[1], [2]], ea_logs = [[0], [1]]\<rparr>"]
  by (simp add: tab_eval eval_nat_numeral)

text \<open>
  C4 as stated fails.  On the input below, at a padded position (mask 0) the source
  returns 0, where the formula of the specification divides by zero; at a mask value of one half the two give
  different numbers.  They agree where the mask is 1.
\<close>

theorem C4_inverse_formula_counterexample:
  "ElementwiseAffine_forward \<lparr>ea_channels = 1, ea_m = [[1]], ea_logs = [[0]]\<rparr>
     [[[3, 3, 3]]] [[[1, 0, 1 / 2]]] True
     = Some (InverseResult [[[2, 0, 1]]]) \<and>
   ElementwiseAffine_inverse_spec \<lparr>ea_channels = 1, ea_m = [[1]], ea_logs = [[0]]\<rparr>
     [[[3, 3, 3]]] [[[1, 0, 1 / 2]]]
     = Some [[[Some 2, None, Some (5 / 2)]]]"
  by (simp add: ElementwiseAffine_forward_def ElementwiseAffine_inverse_spec_def div_entry_def
      tmul_def tsub_def bop3_def bcast_def unsqueeze0_def map2d_def)

text \<open>
  C4, amended.  In real arithmetic, ElementwiseAffine in reverse mode computes
  \<open>x = (y - m) * exp(-logs) * mask\<close>: it subtracts \<open>m\<close> from the input as it is, with no
  division by the mask, and on real numbers the final product with the mask makes every
  position where the mask is 0 come out as 0.  The statement is about real numbers
  only: it says nothing of a floating-point run in which \<open>y - m\<close> or \<open>exp(-logs)\<close>
  overflows, where the product of an infinity with the 0 of the mask is a NaN.
\<close>

theorem C4_ElementwiseAffine_reverse:
  assumes "has_shape3 b c t y" and "has_shape3 b 1 t x_mask"
    and "has_shape2 c 1 (ea_m self)" and "has_shape2 c 1 (ea_logs self)"
  shows "ElementwiseAffine_forward self y x_mask True =
           Some (InverseResult
             (tab3 b c t (\<lambda>i j k.
                (y ! i ! j ! k - ea_m self ! j ! 0) * exp (- ea_logs self ! j ! 0) *
                x_mask ! i ! 0 ! k))) \<and>
         (\<forall>x. ElementwiseAffine_forward self y x_mask True = Some (InverseResult x) \<longrightarrow>
            (\<forall>i<b. \<forall>j<c. \<forall>k<t. x_mask ! i ! 0 ! k = 0 \<longrightarrow> x ! i ! j ! k = 0))"
proof -
  have m: "has_shape2 c (Suc 0) (ea_m self)" and l: "has_shape2 c (Suc 0) (ea_logs self)"
    using assms by simp_all
  have mk: "x_mask = tab3 b (Suc 0) t (\<lambda>i j k. x_mask ! i ! j ! k)"
    using has_shape3_tab [OF assms(2)] by simp
  have rv: "ElementwiseAffine_forward self y x_mask True =
           Some (InverseResult
             (tab3 b c t (\<lambda>i j k.
                (y ! i ! j ! k - ea_m self ! j ! 0) * exp (- ea_logs self ! j ! 0) *
                x_mask ! i ! 0 ! k)))"
    using ElementwiseAffine_reverse_tab [OF m l, of b t "\<lambda>i j k. y ! i ! j ! k"
        "\<lambda>i j k. x_mask ! i ! j ! k"] has_shape3_tab [OF assms(1)] mk by simp
  show ?thesis
    by (simp add: rv tab3_nth)
qed

theorem C4_ElementwiseAffine_reverse_witness:
  "has_shape3 1 1 3 [[[3, 3, 3 :: real]]] \<and> has_shape3 1 1 3 [[[1, 0, 1 / 2 :: real]]] \<and>
   has_shape2 1 1 (ea_m \<lparr>ea_channels = 1, ea_m = [[1]], ea_logs = [[0]]\<rparr>) \<and>
   has_shape2 1 1 (ea_logs \<lparr>ea_channels = 1, ea_m = [[1]], ea_logs = [[0]]\<rparr>) \<and>
   ElementwiseAffine_forward \<lparr>ea_channels = 1, ea_m = [[1]], ea_logs = [[0]]\<rparr>
     [[[3, 3, 3]]] [[[1, 0, 1 / 2]]] True
     = Some (InverseResult [[[2, 0, 1]]]) \<and>
   [[[1, 0, 1 / 2 :: real]]] ! 0 ! 0 ! 1 = 0 \<and> [[[2, 0, 1 :: real]]] ! 0 ! 0 ! 1 = 0"
  using C4_ElementwiseAffine_reverse [of 1 1 3 "[[[3, 3, 3]]]" "[[[1, 0, 1 / 2]]]"
      "\<lparr>ea_channels = 1, ea_m = [[1]], ea_logs = [[0]]\<rparr>"]
  by (simp add: tab_eval eval_nat_numeral)

section \<open>Construction of DDSConv; DSResBlock\<close>

lemmas upt_eval = upt_rec [of _ "numeral n"] upt_rec [of _ "Suc n"] for n

lemmas conv_eval = Conv1d_forward_def Conv1d_init_def conv1d_at_def pad_row_def shape3_def
  LayerNorm_forward_def LayerNorm_init_def layer_norm_def transpose12_def
  nth_opt_def apply_mask_def Dropout_forward_def
  tmul_def tadd_def bop3_def bcast_def map3_def map2d_def
  tab3_def tab2_def has_shape3_def has_shape2_def nth_append

text \<open>The two convolutions the constructor of DDSConv builds for layer \<open>i\<close>.\<close>

lemma Conv1d_init_depthwise:
  "0 < channels \<Longrightarrow>
   Conv1d_init channels channels kernel_size padding dilation channels wb =
     Some \<lparr>cv_in_channels = channels, cv_out_channels = channels,
           cv_kernel_size = kernel_size, cv_padding = padding, cv_dilation = dilation,
           cv_groups = channels,
           cv_weight = tab3 channels (Suc 0) kernel_size (fst wb),
           cv_bias = map (snd wb) [0..<channels]\<rparr>"
  by (simp add: Conv1d_init_def)

lemma Conv1d_init_pointwise:
  "Conv1d_init cin cout kernel_size padding dilation (Suc 0) wb =
     Some \<lparr>cv_in_channels = cin, cv_out_channels = cout,
           cv_kernel_size = kernel_size, cv_padding = padding, cv_dilation = dilation,
           cv_groups = Suc 0,
           cv_weight = tab3 cout cin kernel_size (fst wb),
           cv_bias = map (snd wb) [0..<cout]\<rparr>"
  by (simp add: Conv1d_init_def)

lemma DDSConv_init_loop_Some:
  assumes "0 < dds_channels s"
  shows "\<exists>s'. DDSConv_init_loop w is s = Some s' \<and>
     dds_channels s' = dds_channels s \<and> dds_kernel_size s' = dds_kernel_size s \<and>
     dds_n_layers s' = dds_n_layers s \<and> dds_p_dropout s' = dds_p_dropout s \<and>
     map cv_dilation (convs_sep s') =
       map cv_dilation (convs_sep s) @ map (\<lambda>i. dds_kernel_size s ^ i) is \<and>
     map cv_padding (convs_sep s') =
       map cv_padding (convs_sep s) @
       map (\<lambda>i. get_padding (dds_kernel_size s) (dds_kernel_size s ^ i)) is"
  using assms
proof (induction "is" arbitrary: s)
  case Nil
  then show ?case by simp
next
  case (Cons i "is")
  let ?c = "dds_channels s" and ?k = "dds_kernel_size s"
  obtain sep where sep: "Conv1d_init ?c ?c ?k (get_padding ?k (?k ^ i)) (?k ^ i) ?c (fst (w i)) = Some sep"
    and sepd: "cv_dilation sep = ?k ^ i" and sepp: "cv_padding sep = get_padding ?k (?k ^ i)"
    using Conv1d_init_depthwise [OF Cons.prems] by simp
  obtain pw where pw: "Conv1d_init ?c ?c 1 0 1 1 (snd (w i)) = Some pw"
    using Conv1d_init_pointwise [of ?c ?c "Suc 0" 0 "Suc 0"] by simp
  let ?s1 = "s\<lparr>convs_sep := convs_sep s @ [sep], convs_1x1 := convs_1x1 s @ [pw],
                norms_1 := norms_1 s @ [LayerNorm_init ?c],
                norms_2 := norms_2 s @ [LayerNorm_init ?c]\<rparr>"
  have "0 < dds_channels ?s1" using Cons.prems by simp
  from Cons.IH [OF this] obtain s' where s': "DDSConv_init_loop w is ?s1 = Some s'"
    and f: "dds_channels s' = dds_channels ?s1" "dds_kernel_size s' = dds_kernel_size ?s1"
      "dds_n_layers s' = dds_n_layers ?s1" "dds_p_dropout s' = dds_p_dropout ?s1"
    and d: "map cv_dilation (convs_sep s') =
       map cv_dilation (convs_sep ?s1) @ map (\<lambda>i. dds_kernel_size ?s1 ^ i) is"
    and p: "map cv_padding (convs_sep s') =
       map cv_padding (convs_sep ?s1) @
       map (\<lambda>i. get_padding (dds_kernel_size ?s1) (dds_kernel_size ?s1 ^ i)) is"
    by blast
  have "DDSConv_init_loop w (i # is) s = Some s'"
    using sep pw s' by (simp add: Let_def)
  then show ?case
    using f d p sepd sepp by simp
qed

text \<open>
  C7.  Constructing a DDSConv succeeds for a positive number of channels and a dropout
  probability in \<open>[0, 1]\<close>, and the depthwise convolution of layer \<open>i\<close> is built with
  dilation \<open>kernel_size ^ i\<close> and with the padding \<open>get_padding\<close> returns for it,
  \<open>dilation * (kernel_size - 1) div 2\<close>.  For kernel size 3 and two layers both schedules
  are \<open>[1, 3]\<close>.
\<close>

theorem C7_DDSConv_schedule:
  assumes "0 < channels" and "0 \<le> p_dropout" and "p_dropout \<le> 1"
  shows "map_option (\<lambda>self. map cv_dilation (convs_sep self))
           (DDSConv_init channels kernel_size n_layers p_dropout w)
           = Some (map (\<lambda>i. kernel_size ^ i) [0..<n_layers]) \<and>
         map_option (\<lambda>self. map cv_padding (convs_sep self))
           (DDSConv_init channels kernel_size n_layers p_dropout w)
           = Some (map (\<lambda>i. kernel_size ^ i * (kernel_size - 1) div 2) [0..<n_layers]) \<and>
         map_option (\<lambda>self. map cv_dilation (convs_sep self))
           (DDSConv_init channels 3 2 p_dropout w) = Some [1, 3] \<and>
         map_option (\<lambda>self. map cv_padding (convs_sep self))
           (DDSConv_init channels 3 2 p_dropout w) = Some [1, 3]"
proof -
  have gen: "map_option (\<lambda>self. map cv_dilation (convs_sep self)) (DDSConv_init channels k n p_dropout w)
           = Some (map (\<lambda>i. k ^ i) [0..<n]) \<and>
         map_option (\<lambda>self. map cv_padding (convs_sep self)) (DDSConv_init channels k n p_dropout w)
           = Some (map (\<lambda>i. k ^ i * (k - 1) div 2) [0..<n])" for k n
    using DDSConv_init_loop_Some [of "\<lparr>dds_channels = channels, dds_kernel_size = k,
        dds_n_layers = n, dds_p_dropout = p_dropout, convs_sep = [], convs_1x1 = [],
        norms_1 = [], norms_2 = []\<rparr>" w "[0..<n]"] assms
    by (auto simp add: DDSConv_init_def get_padding_def)
  have two: "[0..<2] = [0, Suc 0]"
    by (simp add: eval_nat_numeral)
  show ?thesis
    using gen [of kernel_size n_layers] gen [of 3 2] by (simp add: two)
qed

theorem C7_DDSConv_schedule_witness:
  "(0::nat) < 4 \<and> (0::real) \<le> 0 \<and> (0::real) \<le> 1 \<and>
   map_option (\<lambda>self. map cv_dilation (convs_sep self))
     (DDSConv_init 4 5 3 0 (\<lambda>i. (example_w, example_w))) = Some [1, 5, 25] \<and>
   map_option (\<lambda>self. map cv_padding (convs_sep self))
     (DDSConv_init 4 5 3 0 (\<lambda>i. (example_w, example_w))) = Some [2, 10, 50] \<and>
   map_option (\<lambda>self. map cv_dilation (convs_sep self))
     (DDSConv_init 4 3 2 0 (\<lambda>i. (example_w, example_w))) = Some [1, 3] \<and>
   map_option (\<lambda>self. map cv_padding (convs_sep self))
     (DDSConv_init 4 3 2 0 (\<lambda>i. (example_w, example_w))) = Some [1, 3]"
  using C7_DDSConv_schedule [where channels = 4 and kernel_size = 5 and n_layers = 3
      and p_dropout = 0 and w = "\<lambda>i. (example_w, example_w)"]
  by (simp add: upt_eval)

text \<open>
  C9.  DSResBlock passes \<open>x_mask=None\<close> to its DDSConv whatever mask it is given: its
  result is that of the unmasked DDSConv, the same for every mask argument.
\<close>

theorem C9_DSResBlock_ignores_mask:
  "DSResBlock_forward E self x x_mask = DDSConv_forward E (dds_conv self) x None None \<and>
   DSResBlock_forward E self x x_mask = DSResBlock_forward E self x None"
  by (simp add: DSResBlock_forward_def)

text \<open>
  On a block of one channel, an input of two ones and a mask that pads the second time
  step: the block returns both ones, where its DDSConv called with the mask returns zero
  at the padded step.
\<close>

theorem C9_DSResBlock_ignores_mask_witness:
  "Option.bind (DSResBlock_init 1 3 [1, 3, 5] (\<lambda>i. (example_w, example_w)))
     (\<lambda>blk. DSResBlock_forward example_env blk [[[1, 1]]] (Some [[[1, 0]]])) = Some [[[1, 1]]] \<and>
   Option.bind (DSResBlock_init 1 3 [1, 3, 5] (\<lambda>i. (example_w, example_w)))
     (\<lambda>blk. DDSConv_forward example_env (dds_conv blk) [[[1, 1]]] (Some [[[1, 0]]]) None)
     = Some [[[1, 0]]]"
proof -
  have blk: "\<exists>blk. DSResBlock_init 1 3 [1, 3, 5] (\<lambda>i. (example_w, example_w)) = Some blk"
    by (simp add: DSResBlock_init_def DDSConv_init_def Conv1d_init_def upt_eval)
  then obtain blk where blk: "DSResBlock_init 1 3 [1, 3, 5] (\<lambda>i. (example_w, example_w)) = Some blk"
    by blast
  have "DDSConv_forward example_env (dds_conv blk) [[[1, 1]]] None None = Some [[[1, 1]]]"
    using blk
    by (auto simp add: DSResBlock_init_def DDSConv_forward_def DDSConv_init_def example_w_def
        example_env_def gelu_tanh_def get_padding_def conv_eval upt_eval)
  moreover have "DDSConv_forward example_env (dds_conv blk) [[[1, 1]]] (Some [[[1, 0]]]) None
      = Some [[[1, 0]]]"
    using blk
    by (auto simp add: DSResBlock_init_def DDSConv_forward_def DDSConv_init_def example_w_def
        example_env_def gelu_tanh_def get_padding_def conv_eval upt_eval)
  ultimately show ?thesis
    using blk C9_DSResBlock_ignores_mask [of example_env blk "[[[1, 1]]]" "Some [[[1, 0]]]"]
    by simp
qed

section \<open>ConvFlow: the split\<close>

lemma shape3_Some_iff:
  "shape3 x = Some (b, c, t) \<longleftrightarrow> has_shape3 b c t x \<and> 0 < b \<and> 0 < c \<and> 0 < t"
proof
  assume "shape3 x = Some (b, c, t)"
  then show "has_shape3 b c t x \<and> 0 < b \<and> 0 < c \<and> 0 < t"
    by (auto simp add: shape3_def split: list.splits if_splits)
next
  assume a: "has_shape3 b c t x \<and> 0 < b \<and> 0 < c \<and> 0 < t"
  then obtain xb xs where x: "x = xb # xs"
    by (cases x) (auto simp add: has_shape3_def)
  with a have xb: "has_shape2 c t xb"
    by (simp add: has_shape3_def)
  with a obtain row rs where r: "xb = row # rs"
    by (cases xb) (auto simp add: has_shape2_def)
  with xb have "length row = t" "length xb = c"
    by (simp_all add: has_shape2_def)
  with a x r show "shape3 x = Some (b, c, t)"
    by (auto simp add: shape3_def has_shape3_def)
qed

lemma has_shape3_channels:
  assumes "has_shape3 b c t x" and "has_shape3 b' c' t' x" and "x \<noteq> []"
  shows "c = c'"
proof -
  from assms(3) obtain xb xs where "x = xb # xs" by (cases x) auto
  with assms(1,2) show ?thesis by (simp add: has_shape3_def has_shape2_def)
qed

lemma split2_odd:
  assumes "has_shape3 b c t x" and "odd c"
  shows "split2 h x = None"
proof (cases "shape3 x")
  case None
  then show ?thesis by (simp add: split2_def)
next
  case (Some s)
  obtain b' c' t' where s: "s = (b', c', t')" by (cases s)
  with Some have sh: "has_shape3 b' c' t' x" and "0 < b'"
    by (simp_all add: shape3_Some_iff)
  then have "x \<noteq> []" by (auto simp add: has_shape3_def)
  with assms(1) sh have "c = c'" by (rule has_shape3_channels)
  with assms(2) have "c' \<noteq> h + h" by auto
  with Some s show ?thesis by (simp add: split2_def)
qed

text \<open>
  C8.  An input with an odd number of channels makes \<open>torch.split\<close>, the first statement of
  \<open>ConvFlow.forward\<close>, raise: the call fails whatever the parameters, the mask, the
  conditioning and the mode are, and returns no tensor, truncated or not.
\<close>

theorem C8_ConvFlow_odd_channels:
  assumes "has_shape3 b c t x" and "odd c"
  shows "split2 (cf_half_channels self) x = None \<and>
         ConvFlow_forward E self x x_mask g reverse = None"
  using split2_odd [OF assms] by (simp add: ConvFlow_forward_def)

lemma example_flow_Some: "\<exists>cf. example_flow = Some cf"
  by (simp add: example_flow_def ConvFlow_init_def DDSConv_init_def Conv1d_init_def upt_eval)

theorem C8_ConvFlow_odd_channels_witness:
  "has_shape3 1 3 1 [[[1], [2], [3 :: real]]] \<and> odd (3 :: nat) \<and>
   map_option (\<lambda>cf. ConvFlow_forward example_env cf [[[1], [2], [3]]] [[[1]]] None False)
     example_flow = Some None"
proof -
  obtain cf where cf: "example_flow = Some cf"
    using example_flow_Some by blast
  have sh: "has_shape3 1 3 1 [[[1], [2], [3 :: real]]]"
    by (simp add: has_shape3_def has_shape2_def)
  have odd3: "odd (3 :: nat)" by simp
  show ?thesis
    using C8_ConvFlow_odd_channels [OF sh odd3, of cf example_env "[[[1]]]" None False] sh
    by (simp add: cf)
qed

section \<open>ConvFlow: the untransformed half\<close>

lemmas flow_eval = example_flow_def ConvFlow_init_def DDSConv_init_def example_w_def
  example_env_def affine_env_def gelu_tanh_def identity_spline_def affine_spline_def
  pointwise_kernel_def get_padding_def
  ConvFlow_forward_def ConvFlow_spline_params_def DDSConv_forward_def
  split2_def cat1_def reshape_permute_def tab4_def slice_last_def slice_last_from_def
  map4_def sum12_def mod_Suc div_Suc

lemma ConvFlow_forward_SomeE:
  assumes "ConvFlow_forward E self x x_mask g reverse = Some r"
  obtains x0 x1 uw uh ud x1' lad xc y l where
    "split2 (cf_half_channels self) x = Some (x0, x1)"
    "ConvFlow_spline_params E self x0 x_mask g = Some (uw, uh, ud)"
    "piecewise_rational_quadratic_transform E x1 uw uh ud reverse (cf_tail_bound self)
       = Some (x1', lad)"
    "cat1 x0 x1' = Some xc" "tmul xc x_mask = Some y" "tmul lad x_mask = Some l"
    "r = (if \<not> reverse then ForwardResult y (sum12 l) else InverseResult y)"
  using assms unfolding ConvFlow_forward_def
  by (auto simp add: bind_eq_Some_conv Let_def split: prod.splits if_splits)

lemma ConvFlow_forward_SomeI:
  assumes "split2 (cf_half_channels self) x = Some (x0, x1)"
    "ConvFlow_spline_params E self x0 x_mask g = Some (uw, uh, ud)"
    "piecewise_rational_quadratic_transform E x1 uw uh ud reverse (cf_tail_bound self)
       = Some (x1', lad)"
    "cat1 x0 x1' = Some xc" "tmul xc x_mask = Some y" "tmul lad x_mask = Some l"
  shows "ConvFlow_forward E self x x_mask g reverse =
    Some (if \<not> reverse then ForwardResult y (sum12 l) else InverseResult y)"
  using assms unfolding ConvFlow_forward_def by (simp add: Let_def)

lemma split2_SomeD:
  assumes "split2 h x = Some (x0, x1)"
  shows "\<exists>b t. shape3 x = Some (b, h + h, t) \<and> x0 = map (take h) x \<and> x1 = map (drop h) x"
  using assms by (auto simp add: split2_def split: option.splits if_splits)

lemma cat1_SomeD:
  assumes "cat1 x y = Some z"
  shows "\<exists>b c c' t. shape3 x = Some (b, c, t) \<and> shape3 y = Some (b, c', t) \<and> z = map2 (@) x y"
  using assms by (auto simp add: cat1_def split: option.splits if_splits)

lemma take_upt0: "take h [0..<c] = [0..<min h c]"
  by (rule nth_equalityI) auto

lemma take_tab3: "map (take h) (tab3 b c t f) = tab3 b (min h c) t f"
  by (simp add: tab3_def tab2_def take_map take_upt0)

lemma drop_tab3: "map (drop h) (tab3 b c t f) = tab3 b (c - h) t (\<lambda>i j k. f i (j + h) k)"
  unfolding tab3_def tab2_def
  by (auto simp add: drop_map intro!: nth_equalityI simp add: add.commute)

lemma cat_tab3:
  "map2 (@) (tab3 b c t f) (tab3 b c' t g) =
     tab3 b (c + c') t (\<lambda>i j k. if j < c then f i j k else g i (j - c) k)"
  unfolding tab3_def tab2_def
  by (auto simp add: map2_upt nth_append intro!: nth_equalityI)


text \<open>
  C2, amended.  In both modes the first half of the output channels is the first half of
  the input channels multiplied by the mask: the output is \<open>torch.cat([x0, x1], 1) * x_mask\<close>.
  So that half equals the input where the mask is 1 and is zero where the mask is 0.
\<close>

theorem C2_ConvFlow_x0_masked:
  assumes fw: "ConvFlow_forward E self x x_mask g reverse = Some r"
    and x: "has_shape3 b c t x" and mk: "has_shape3 b 1 t x_mask"
  shows "map (take (cf_half_channels self)) (tensor_of r) =
         tab3 b (cf_half_channels self) t (\<lambda>i j k. x ! i ! j ! k * x_mask ! i ! 0 ! k)"
proof -
  let ?h = "cf_half_channels self"
  from fw obtain x0 x1 uw uh ud x1' lad xc y l where
    sp: "split2 ?h x = Some (x0, x1)" and
    ct: "cat1 x0 x1' = Some xc" and ml: "tmul xc x_mask = Some y" and
    r: "r = (if \<not> reverse then ForwardResult y (sum12 l) else InverseResult y)"
    by (rule ConvFlow_forward_SomeE)
  from sp obtain b' t' where sx: "shape3 x = Some (b', ?h + ?h, t')"
    and x0: "x0 = map (take ?h) x"
    using split2_SomeD by blast
  from sx have x': "has_shape3 b' (?h + ?h) t' x" and pos: "0 < b'" "0 < ?h" "0 < t'"
    by (simp_all add: shape3_Some_iff)
  have xne: "x \<noteq> []" using x' pos by (auto simp add: has_shape3_def)
  have b: "b' = b" using x x' by (simp add: has_shape3_def)
  have c: "c = ?h + ?h" using x x' xne by (rule has_shape3_channels)
  have t: "t' = t"
  proof -
    from xne obtain xb xs where "x = xb # xs" by (cases x) auto
    moreover with x' pos have "xb \<noteq> []" by (auto simp add: has_shape3_def has_shape2_def)
    then obtain row rs where "xb = row # rs" by (cases xb) auto
    ultimately show ?thesis using x x' by (simp add: has_shape3_def has_shape2_def)
  qed
  have xt: "x = tab3 b (?h + ?h) t (\<lambda>i j k. x ! i ! j ! k)"
    using has_shape3_tab [OF x'] b t by simp
  have x0t: "x0 = tab3 b ?h t (\<lambda>i j k. x ! i ! j ! k)"
    unfolding x0 by (subst xt) (simp add: take_tab3)
  from ct obtain b2 c2 c3 t2 where s0: "shape3 x0 = Some (b2, c2, t2)"
    and s1: "shape3 x1' = Some (b2, c3, t2)" and xc: "xc = map2 (@) x0 x1'"
    using cat1_SomeD by blast
  have "has_shape3 b2 c2 t2 x0" "0 < b2" "0 < c2" "0 < t2"
    using s0 by (simp_all add: shape3_Some_iff)
  moreover have "shape3 x0 = Some (b, ?h, t)"
    using pos b t by (subst x0t) (simp add: shape3_Some_iff)
  ultimately have b2: "b2 = b" and t2: "t2 = t"
    using s0 by simp_all
  have x1t: "x1' = tab3 b c3 t (\<lambda>i j k. x1' ! i ! j ! k)"
    using s1 has_shape3_tab [of b c3 t x1'] by (simp add: shape3_Some_iff b2 t2)
  have xct: "xc = tab3 b (?h + c3) t
      (\<lambda>i j k. if j < ?h then x ! i ! j ! k else x1' ! i ! (j - ?h) ! k)"
    unfolding xc by (subst x0t, subst x1t) (simp add: cat_tab3)
  have mkt: "x_mask = tab3 b (Suc 0) t (\<lambda>i j k. x_mask ! i ! j ! k)"
    using has_shape3_tab [OF mk] by simp
  have "tmul xc x_mask = Some (tab3 b (?h + c3) t
      (\<lambda>i j k. (if j < ?h then x ! i ! j ! k else x1' ! i ! (j - ?h) ! k) * x_mask ! i ! 0 ! k))"
    by (subst xct, subst mkt) (simp add: tmul_def bop3_mask)
  with ml have y: "y = tab3 b (?h + c3) t
      (\<lambda>i j k. (if j < ?h then x ! i ! j ! k else x1' ! i ! (j - ?h) ! k) * x_mask ! i ! 0 ! k)"
    by simp
  have "tensor_of r = y" using r by simp
  then show ?thesis
    by (simp add: y take_tab3)
qed

lemma example_forward:
  "Option.bind example_flow
     (\<lambda>cf. ConvFlow_forward example_env cf [[[1, 2], [7, 8]]] [[[1, 0]]] None False)
     = Some (ForwardResult [[[1, 0], [7, 0]]] [0])"
  by (simp add: flow_eval conv_eval upt_eval)

lemma example_reverse:
  "Option.bind example_flow
     (\<lambda>cf. ConvFlow_forward example_env cf [[[1, 2], [7, 8]]] [[[1, 0]]] None True)
     = Some (InverseResult [[[1, 0], [7, 0]]])"
  by (simp add: flow_eval conv_eval upt_eval)

text \<open>
  C2 as stated fails.  On the example flow, with a mask that pads the second time step,
  the first half of the output is \<open>[1, 0]\<close> in both modes, not the input's \<open>[1, 2]\<close>.
\<close>

theorem C2_x0_passthrough_counterexample:
  "Option.bind example_flow
     (\<lambda>cf. ConvFlow_forward example_env cf [[[1, 2], [7, 8]]] [[[1, 0]]] None False)
     = Some (ForwardResult [[[1, 0], [7, 0]]] [0]) \<and>
   Option.bind example_flow
     (\<lambda>cf. ConvFlow_forward example_env cf [[[1, 2], [7, 8]]] [[[1, 0]]] None True)
     = Some (InverseResult [[[1, 0], [7, 0]]]) \<and>
   map (take 1) [[[1, 0], [7, 0 :: real]]] \<noteq> map (take 1) [[[1, 2], [7, 8]]]"
  using example_forward example_reverse by simp

theorem C2_ConvFlow_x0_masked_witness:
  "Option.bind example_flow
     (\<lambda>cf. ConvFlow_forward example_env cf [[[1, 2], [7, 8]]] [[[1, 0]]] None False)
     = Some (ForwardResult [[[1, 0], [7, 0]]] [0]) \<and>
   has_shape3 1 2 2 [[[1, 2], [7, 8 :: real]]] \<and> has_shape3 1 1 2 [[[1, 0 :: real]]] \<and>
   map_option cf_half_channels example_flow = Some 1 \<and>
   map (take 1) [[[1, 0], [7, 0 :: real]]] = [[[1 * 1, 2 * 0]]]"
proof -
  obtain cf where cf: "example_flow = Some cf"
    using example_flow_Some by blast
  have fw: "ConvFlow_forward example_env cf [[[1, 2], [7, 8]]] [[[1, 0]]] None False
      = Some (ForwardResult [[[1, 0], [7, 0]]] [0])"
    using example_forward by (simp add: cf)
  have x: "has_shape3 1 2 2 [[[1, 2], [7, 8 :: real]]]"
    and mk: "has_shape3 1 1 2 [[[1, 0 :: real]]]"
    by (simp_all add: has_shape3_def has_shape2_def)
  have h: "cf_half_channels cf = 1"
    using cf by (auto simp add: example_flow_def ConvFlow_init_def Let_def bind_eq_Some_conv)
  show ?thesis
    using C2_ConvFlow_x0_masked [OF fw x mk] fw x mk h
    by (simp add: cf tab3_def tab2_def upt_eval)
qed

section \<open>ConvFlow: the zero-initialised projection\<close>

lemma sum_list_map_zero:
  "(\<And>x. x \<in> set xs \<Longrightarrow> f x = (0::real)) \<Longrightarrow> sum_list (map f xs) = 0"
  by (induction xs) simp_all

lemma bcast_all:
  assumes "bcast f xs ys = Some zs"
    and "\<And>x y z. x \<in> set xs \<Longrightarrow> y \<in> set ys \<Longrightarrow> f x y = Some z \<Longrightarrow> Q z"
  shows "list_all Q zs"
proof -
  have "Q (zs ! i)" if i: "i < length zs" for i
  proof -
    consider (eq) "length xs = length ys" "those (map2 f xs ys) = Some zs"
      | (r) "length ys = 1" "those (map (\<lambda>x. f x (hd ys)) xs) = Some zs"
      | (l) "length xs = 1" "those (map (\<lambda>y. f (hd xs) y) ys) = Some zs"
      using assms(1) by (auto simp add: bcast_def split: if_splits)
    then show ?thesis
    proof cases
      case eq
      from those_eq_Some_length [OF eq(2)] i eq(1) have ix: "i < length xs" "i < length ys"
        by simp_all
      with those_eq_Some_nth [OF eq(2), of i] have "f (xs ! i) (ys ! i) = Some (zs ! i)"
        by simp
      with ix show ?thesis using assms(2) [of "xs ! i" "ys ! i"] by simp
    next
      case r
      from those_eq_Some_length [OF r(2)] i have ix: "i < length xs" by simp
      with those_eq_Some_nth [OF r(2), of i] have "f (xs ! i) (hd ys) = Some (zs ! i)"
        by simp
      moreover from r(1) have "hd ys \<in> set ys" by (cases ys) auto
      ultimately show ?thesis using ix assms(2) [of "xs ! i" "hd ys"] by simp
    next
      case l
      from those_eq_Some_length [OF l(2)] i have ix: "i < length ys" by simp
      with those_eq_Some_nth [OF l(2), of i] have "f (hd xs) (ys ! i) = Some (zs ! i)"
        by simp
      moreover from l(1) have "hd xs \<in> set xs" by (cases xs) auto
      ultimately show ?thesis using ix assms(2) [of "hd xs" "ys ! i"] by simp
    qed
  qed
  then show ?thesis by (simp add: list_all_length)
qed

lemma tmul_all_zero:
  assumes "tmul x y = Some z" and "all_zero3 x"
  shows "all_zero3 z"
  unfolding all_zero3_def
proof (rule bcast_all [OF assms(1) [unfolded tmul_def bop3_def]])
  fix xb yb zb
  assume xb: "xb \<in> set x" and zb: "bcast (bcast (\<lambda>a b. Some (a * b))) xb yb = Some zb"
  show "list_all (list_all (\<lambda>v. v = 0)) zb"
  proof (rule bcast_all [OF zb])
    fix row row' zrow
    assume row: "row \<in> set xb" and zr: "bcast (\<lambda>a b. Some (a * b)) row row' = Some zrow"
    show "list_all (\<lambda>v. v = 0) zrow"
    proof (rule bcast_all [OF zr])
      fix a b :: real and c
      assume "a \<in> set row" and "Some (a * b) = Some c"
      moreover from assms(2) xb row have "list_all (\<lambda>v. v = 0) row"
        by (simp add: all_zero3_def list_all_iff)
      ultimately show "c = 0" by (auto simp add: list_all_iff)
    qed
  qed
qed

lemma index_bound:
  fixes i j b c :: nat
  assumes "i < b" and "j < c"
  shows "i * c + j < b * c"
proof -
  have "i * c + j < i * c + c" using assms(2) by simp
  also have "\<dots> = Suc i * c" by simp
  also have "\<dots> \<le> b * c" using assms(1) by (intro mult_le_mono1) simp
  finally show ?thesis .
qed

lemma all_zero4_tab4:
  "(\<And>i j k r. i < b \<Longrightarrow> j < c \<Longrightarrow> k < t \<Longrightarrow> r < q \<Longrightarrow> f i j k r = 0) \<Longrightarrow>
   all_zero4 (tab4 b c t q f)"
  by (simp add: all_zero4_def all_zero3_def tab4_def tab3_def tab2_def list_all_iff)

lemma reshape_permute_all_zero:
  assumes "reshape_permute b c t h = Some h'" and "all_zero3 h"
  shows "all_zero4 h'"
proof -
  let ?flat = "concat (concat h)"
  let ?n = "length ?flat"
  from assms(1) have nz: "b * c * t \<noteq> 0" and dv: "?n mod (b * c * t) = 0"
    and h': "h' = tab4 b c t (?n div (b * c * t))
       (\<lambda>i j k r. ?flat ! (((i * c + j) * (?n div (b * c * t)) + r) * t + k))"
    by (auto simp add: reshape_permute_def Let_def split: if_splits)
  let ?q = "?n div (b * c * t)"
  have n: "?n = b * c * ?q * t"
    using dv by (auto simp add: mult.commute mult.left_commute)
  have z: "v = 0" if "v \<in> set ?flat" for v
    using that assms(2) by (auto simp add: all_zero3_def list_all_iff)
  show ?thesis
    unfolding h'
  proof (rule all_zero4_tab4)
    fix i j k r
    assume "i < b" "j < c" "k < t" "r < ?q"
    then have "((i * c + j) * ?q + r) * t + k < b * c * ?q * t"
      by (intro index_bound)
    then have "((i * c + j) * ?q + r) * t + k < ?n"
      using n by simp
    then have "?flat ! (((i * c + j) * ?q + r) * t + k) \<in> set ?flat"
      by (rule nth_mem)
    then show "?flat ! (((i * c + j) * ?q + r) * t + k) = 0"
      by (rule z)
  qed
qed

lemma all_zero4_map3:
  assumes "all_zero4 h" and "\<And>v. list_all (\<lambda>a. a = 0) v \<Longrightarrow> list_all (\<lambda>a. a = 0) (f v)"
  shows "all_zero4 (map3 f h)"
  using assms
  by (simp add: all_zero4_def all_zero3_def map3_def map2d_def list_all_iff) blast

lemma all_zero4_map4:
  assumes "all_zero4 h" and "f 0 = 0"
  shows "all_zero4 (map4 f h)"
  using assms
  by (fastforce simp add: all_zero4_def all_zero3_def map4_def map3_def map2d_def list_all_iff)

lemma all_zero4_slice_last: "all_zero4 h \<Longrightarrow> all_zero4 (slice_last lo hi h)"
  unfolding slice_last_def
  by (rule all_zero4_map3) (auto simp add: list_all_iff dest!: in_set_dropD in_set_takeD)

lemma all_zero4_slice_last_from: "all_zero4 h \<Longrightarrow> all_zero4 (slice_last_from lo h)"
  unfolding slice_last_from_def
  by (rule all_zero4_map3) (auto simp add: list_all_iff dest!: in_set_dropD)

lemma Conv1d_forward_SomeD:
  assumes "Conv1d_forward cv x = Some y"
  shows "\<exists>b t. shape3 x = Some (b, cv_in_channels cv, t) \<and>
           0 < cv_kernel_size cv \<and> 0 < cv_dilation cv \<and>
           cv_dilation cv * (cv_kernel_size cv - 1) + 1 \<le> t + 2 * cv_padding cv \<and>
           y = map (\<lambda>xb. tab2 (cv_out_channels cv)
                       (t + 2 * cv_padding cv - cv_dilation cv * (cv_kernel_size cv - 1))
                       (conv1d_at cv (map (pad_row (cv_padding cv)) xb))) x"
  using assms
  by (auto simp add: Conv1d_forward_def Let_def split: option.splits if_splits)

lemma Conv1d_forward_zero:
  assumes fw: "Conv1d_forward cv x = Some y"
    and w: "cv_weight cv = zeros3 (cv_out_channels cv) (cv_in_channels cv div cv_groups cv)
              (cv_kernel_size cv)"
    and bs: "cv_bias cv = replicate (cv_out_channels cv) 0"
  shows "all_zero3 y"
proof -
  have at: "conv1d_at cv xp oc t = 0" if oc: "oc < cv_out_channels cv" for xp oc t
  proof -
    have wz: "cv_weight cv ! oc ! i ! k = 0"
      if "i < cv_in_channels cv div cv_groups cv" and "k < cv_kernel_size cv" for i k
      using oc that by (simp add: w zeros3_tab3 tab3_nth)
    have "(\<Sum>i\<leftarrow>[0..<cv_in_channels cv div cv_groups cv].
            \<Sum>k\<leftarrow>[0..<cv_kernel_size cv].
              cv_weight cv ! oc ! i ! k *
              xp ! (oc div (cv_out_channels cv div cv_groups cv) *
                    (cv_in_channels cv div cv_groups cv) + i) ! (t + k * cv_dilation cv)) = 0"
      by (intro sum_list_map_zero) (simp add: wz)
    then show ?thesis
      using oc by (simp add: conv1d_at_def Let_def bs)
  qed
  from Conv1d_forward_SomeD [OF fw] obtain n where "y = map (\<lambda>xb. tab2 (cv_out_channels cv) n
      (conv1d_at cv (map (pad_row (cv_padding cv)) xb))) x"
    by blast
  then show ?thesis
    by (simp add: all_zero3_def tab2_def list_all_iff at)
qed

lemma ConvFlow_init_proj:
  assumes "ConvFlow_init in_channels filter_channels kernel_size n_layers num_bins tail_bound
             w_pre w_convs w_proj = Some self"
  shows "cf_filter_channels self = filter_channels" and "cf_num_bins self = num_bins"
    and "cv_in_channels (cf_proj self) = filter_channels"
    and "cv_groups (cf_proj self) = 1" and "cv_kernel_size (cf_proj self) = 1"
    and "cv_weight (cf_proj self) = zeros3 (cv_out_channels (cf_proj self)) filter_channels 1"
    and "cv_bias (cf_proj self) = replicate (cv_out_channels (cf_proj self)) 0"
  using assms
  by (auto simp add: ConvFlow_init_def Let_def bind_eq_Some_conv Conv1d_init_def map3_tab3
      zeros3_tab3 map_replicate_const split: if_splits)

text \<open>
  C10.  The constructor of ConvFlow overwrites the weight and the bias of \<open>proj\<close> with
  zeros, so whenever a freshly constructed ConvFlow computes the unnormalized widths,
  heights and derivatives of its spline, every one of them is zero, for every input,
  mask and conditioning.  (With no filter channel the code divides by
  \<open>math.sqrt(0)\<close>; the statement is for a positive number of filter channels.)
\<close>

theorem C10_ConvFlow_fresh_zero:
  assumes init: "ConvFlow_init in_channels filter_channels kernel_size n_layers num_bins
                   tail_bound w_pre w_convs w_proj = Some self"
    and fc: "0 < filter_channels"
    and sp: "ConvFlow_spline_params E self x0 x_mask g
               = Some (unnormalized_widths, unnormalized_heights, unnormalized_derivatives)"
  shows "cv_weight (cf_proj self) = zeros3 (cv_out_channels (cf_proj self)) filter_channels 1 \<and>
         cv_bias (cf_proj self) = replicate (cv_out_channels (cf_proj self)) 0 \<and>
         all_zero4 unnormalized_widths \<and> all_zero4 unnormalized_heights \<and>
         all_zero4 unnormalized_derivatives"
proof -
  note pj = ConvFlow_init_proj [OF init]
  from sp obtain h2 h3 h4 b c t h5 where
    c3: "Conv1d_forward (cf_proj self) h2 = Some h3" and
    m4: "tmul h3 x_mask = Some h4" and
    r5: "reshape_permute b c t h4 = Some h5" and
    uw: "unnormalized_widths = map4 (\<lambda>v. v / sqrt (real (cf_filter_channels self)))
           (slice_last 0 (cf_num_bins self) h5)" and
    uh: "unnormalized_heights = map4 (\<lambda>v. v / sqrt (real (cf_filter_channels self)))
           (slice_last (cf_num_bins self) (2 * cf_num_bins self) h5)" and
    ud: "unnormalized_derivatives = slice_last_from (2 * cf_num_bins self) h5"
    unfolding ConvFlow_spline_params_def
    by (auto simp add: bind_eq_Some_conv Let_def split: prod.splits)
  have "all_zero3 h3"
    using c3 by (rule Conv1d_forward_zero) (simp_all add: pj)
  with m4 have "all_zero3 h4" by (rule tmul_all_zero)
  with r5 have z5: "all_zero4 h5" by (rule reshape_permute_all_zero)
  have "all_zero4 unnormalized_widths"
    unfolding uw by (intro all_zero4_map4 all_zero4_slice_last z5) simp
  moreover have "all_zero4 unnormalized_heights"
    unfolding uh by (intro all_zero4_map4 all_zero4_slice_last z5) simp
  moreover have "all_zero4 unnormalized_derivatives"
    unfolding ud by (intro all_zero4_slice_last_from z5)
  ultimately show ?thesis
    using pj by simp
qed

lemma example_params:
  "Option.bind example_flow
     (\<lambda>cf. ConvFlow_spline_params example_env cf [[[1, 2]]] [[[1, 0]]] None)
   = Some ([[[[0, 0], [0, 0]]]], [[[[0, 0], [0, 0]]]], [[[[0], [0]]]])"
  by (simp add: flow_eval conv_eval upt_eval)

theorem C10_ConvFlow_fresh_zero_witness:
  "(\<exists>self. ConvFlow_init 2 1 3 1 2 5 example_w (\<lambda>i. (example_w, example_w)) example_w = Some self \<and>
      ConvFlow_spline_params example_env self [[[1, 2]]] [[[1, 0]]] None
        = Some ([[[[0, 0], [0, 0]]]], [[[[0, 0], [0, 0]]]], [[[[0], [0]]]]) \<and>
      cv_weight (cf_proj self) = [[[0]], [[0]], [[0]], [[0]], [[0]]] \<and>
      cv_bias (cf_proj self) = [0, 0, 0, 0, 0]) \<and>
   (0 :: nat) < 1 \<and>
   all_zero4 [[[[0, 0], [0, 0]]]] \<and> all_zero4 [[[[0], [0]]]]"
proof -
  obtain self where self: "ConvFlow_init 2 1 3 1 2 5 example_w (\<lambda>i. (example_w, example_w)) example_w = Some self"
    using example_flow_Some by (auto simp add: example_flow_def)
  have sp: "ConvFlow_spline_params example_env self [[[1, 2]]] [[[1, 0]]] None
        = Some ([[[[0, 0], [0, 0]]]], [[[[0, 0], [0, 0]]]], [[[[0], [0]]]])"
    using example_params self by (simp add: example_flow_def)
  have out: "cv_out_channels (cf_proj self) = 5"
    using self by (auto simp add: ConvFlow_init_def Let_def bind_eq_Some_conv Conv1d_init_def
        split: if_splits)
  have one: "(0 :: nat) < 1" by simp
  show ?thesis
    using C10_ConvFlow_fresh_zero [OF self one sp] self sp
    by (simp add: out zeros3_def eval_nat_numeral)
qed

section \<open>Round trips of Log and ElementwiseAffine\<close>

lemma binary_mask_nth:
  assumes "binary_mask x_mask" and "has_shape3 b c t x_mask" and "i < b" and "j < c" and "k < t"
  shows "x_mask ! i ! j ! k = 0 \<or> x_mask ! i ! j ! k = 1"
  using assms
  by (simp add: binary_mask_def has_shape3_def has_shape2_def list_all_length)

lemma Log_roundtrip:
  assumes x: "has_shape3 b c t x" and mk: "has_shape3 b 1 t x_mask" and bin: "binary_mask x_mask"
  shows "Option.bind (Log_forward x x_mask False) (\<lambda>r. Log_forward (tensor_of r) x_mask True)
         = Some (InverseResult
             (tab3 b c t (\<lambda>i j k. max (x ! i ! j ! k) (1 / 100000) * x_mask ! i ! 0 ! k)))"
proof -
  have mkt: "x_mask = tab3 b (Suc 0) t (\<lambda>i j k. x_mask ! i ! j ! k)"
    using has_shape3_tab [OF mk] by simp
  have xt: "x = tab3 b c t (\<lambda>i j k. x ! i ! j ! k)"
    by (rule has_shape3_tab [OF x])
  have fw: "Log_forward x x_mask False =
     Some (ForwardResult
       (tab3 b c t (\<lambda>i j k. ln (max (x ! i ! j ! k) (1 / 100000)) * x_mask ! i ! 0 ! k))
       (sum12 (tab3 b c t
          (\<lambda>i j k. - (ln (max (x ! i ! j ! k) (1 / 100000)) * x_mask ! i ! 0 ! k)))))"
    using Log_forward_tab [of b c t "\<lambda>i j k. x ! i ! j ! k" "\<lambda>i j k. x_mask ! i ! j ! k"]
      xt mkt by simp
  have rv: "Log_forward (tab3 b c t u) x_mask True =
     Some (InverseResult (tab3 b c t (\<lambda>i j k. exp (u i j k) * x_mask ! i ! 0 ! k)))" for u
    using Log_reverse_tab [of b c t u "\<lambda>i j k. x_mask ! i ! j ! k"] mkt by simp
  have pt: "exp (ln (max v (1 / 100000)) * x_mask ! i ! 0 ! k) * x_mask ! i ! 0 ! k =
      max v (1 / 100000) * x_mask ! i ! 0 ! k" if "i < b" "k < t" for i k and v :: real
  proof -
    have pos: "0 < max v (1 / 100000)" by simp
    from binary_mask_nth [OF bin mk that(1) _ that(2), of 0]
    show ?thesis using pos by (auto simp add: exp_ln)
  qed
  show ?thesis
    by (simp add: fw rv pt cong: tab3_cong')
qed

lemma ElementwiseAffine_roundtrip:
  assumes x: "has_shape3 b c t x" and mk: "has_shape3 b 1 t x_mask" and bin: "binary_mask x_mask"
    and m: "has_shape2 c 1 (ea_m self)" and l: "has_shape2 c 1 (ea_logs self)"
  shows "Option.bind (ElementwiseAffine_forward self x x_mask False)
           (\<lambda>r. ElementwiseAffine_forward self (tensor_of r) x_mask True)
         = Some (InverseResult (tab3 b c t (\<lambda>i j k. x ! i ! j ! k * x_mask ! i ! 0 ! k)))"
proof -
  have m': "has_shape2 c (Suc 0) (ea_m self)" and l': "has_shape2 c (Suc 0) (ea_logs self)"
    using m l by simp_all
  have mkt: "x_mask = tab3 b (Suc 0) t (\<lambda>i j k. x_mask ! i ! j ! k)"
    using has_shape3_tab [OF mk] by simp
  have xt: "x = tab3 b c t (\<lambda>i j k. x ! i ! j ! k)"
    by (rule has_shape3_tab [OF x])
  have fw: "ElementwiseAffine_forward self x x_mask False =
     Some (ForwardResult
       (tab3 b c t (\<lambda>i j k. (ea_m self ! j ! 0 + exp (ea_logs self ! j ! 0) * x ! i ! j ! k)
          * x_mask ! i ! 0 ! k))
       (sum12 (tab3 b c t (\<lambda>i j k. ea_logs self ! j ! 0 * x_mask ! i ! 0 ! k))))"
    using ElementwiseAffine_forward_tab [OF m' l', of b t "\<lambda>i j k. x ! i ! j ! k"
        "\<lambda>i j k. x_mask ! i ! j ! k"] xt mkt by simp
  have rv: "ElementwiseAffine_forward self (tab3 b c t u) x_mask True =
     Some (InverseResult (tab3 b c t
       (\<lambda>i j k. (u i j k - ea_m self ! j ! 0) * exp (- ea_logs self ! j ! 0) * x_mask ! i ! 0 ! k)))"
    for u
    using ElementwiseAffine_reverse_tab [OF m' l', of b t u "\<lambda>i j k. x_mask ! i ! j ! k"] mkt
    by simp
  have pt: "((mm + exp ll * v) * x_mask ! i ! 0 ! k - mm) * exp (- ll) * x_mask ! i ! 0 ! k =
      v * x_mask ! i ! 0 ! k" if "i < b" "k < t" for i k and v mm ll :: real
  proof -
    have "exp ll * exp (- ll) = 1" by (simp add: exp_minus)
    then have "exp ll * v * exp (- ll) = v"
      by (metis mult.assoc mult.commute mult.right_neutral)
    with binary_mask_nth [OF bin mk that(1) _ that(2), of 0]
    show ?thesis by auto
  qed
  show ?thesis
    by (simp add: fw rv pt cong: tab3_cong')
qed

section \<open>ConvFlow: the round trip\<close>

lemma pad_row_0 [simp]: "pad_row 0 row = row"
  by (simp add: pad_row_def)

lemma conv1d_at_pointwise:
  assumes pw: "pointwise_conv cv" and oc: "oc < cv_out_channels cv"
    and len: "length xb = cv_in_channels cv"
  shows "conv1d_at cv (map (pad_row 0) xb) oc k = conv1x1_at cv (\<lambda>j. xb ! j ! k) oc"
proof -
  have g: "cv_groups cv = 1" "cv_kernel_size cv = 1" "cv_dilation cv = 1"
    using pw by (simp_all add: pointwise_conv_def)
  have "oc div cv_out_channels cv = 0" using oc by simp
  then show ?thesis
    unfolding conv1d_at_def conv1x1_at_def Let_def g
    by (auto intro!: arg_cong [where f = sum_list] simp add: len)
qed

lemma Conv1d_forward_pointwise:
  assumes pw: "pointwise_conv cv" and pos: "0 < b" "0 < t" "0 < cv_in_channels cv"
  shows "Conv1d_forward cv (tab3 b (cv_in_channels cv) t U) =
           Some (tab3 b (cv_out_channels cv) t (\<lambda>i oc k. conv1x1_at cv (\<lambda>j. U i j k) oc))"
proof -
  have g: "cv_groups cv = 1" "cv_kernel_size cv = 1" "cv_dilation cv = 1" "cv_padding cv = 0"
    using pw by (simp_all add: pointwise_conv_def)
  have sh: "shape3 (tab3 b (cv_in_channels cv) t U) = Some (b, cv_in_channels cv, t)"
    using pos by (simp add: shape3_Some_iff)
  have row: "tab2 (cv_out_channels cv) t
        (conv1d_at cv (map (pad_row 0) (tab2 (cv_in_channels cv) t (U i)))) =
      tab2 (cv_out_channels cv) t (\<lambda>oc k. conv1x1_at cv (\<lambda>j. U i j k) oc)" for i
  proof (rule tab2_cong)
    fix oc k assume oc: "oc < cv_out_channels cv" and k: "k < t"
    have "conv1d_at cv (map (pad_row 0) (tab2 (cv_in_channels cv) t (U i))) oc k =
        conv1x1_at cv (\<lambda>j. tab2 (cv_in_channels cv) t (U i) ! j ! k) oc"
      by (rule conv1d_at_pointwise [OF pw oc]) (simp add: tab2_def)
    also have "\<dots> = conv1x1_at cv (\<lambda>j. U i j k) oc"
      unfolding conv1x1_at_def using k
      by (auto intro!: arg_cong [where f = sum_list] simp add: tab2_nth)
    finally show "conv1d_at cv (map (pad_row 0) (tab2 (cv_in_channels cv) t (U i))) oc k =
        conv1x1_at cv (\<lambda>j. U i j k) oc" .
  qed
  show ?thesis
    using pos by (simp add: Conv1d_forward_def sh g Let_def) (simp add: tab3_def row)
qed

lemma cond_add_tab:
  assumes "cond_shape b c t g"
  shows "\<exists>G. \<forall>A. (case g of None \<Rightarrow> Some (tab3 b c t A) | Some g' \<Rightarrow> tadd (tab3 b c t A) g')
           = Some (tab3 b c t (\<lambda>i j k. A i j k + G i j k))"
proof (cases g)
  case None
  then show ?thesis
    by (intro exI [of _ "\<lambda>i j k. 0"]) simp
next
  case (Some g')
  from assms Some consider "has_shape3 b c t g'" | "has_shape3 b c (Suc 0) g'"
    by (auto simp add: cond_shape_def)
  then show ?thesis
  proof cases
    case 1
    have "tadd (tab3 b c t A) g' = Some (tab3 b c t (\<lambda>i j k. A i j k + g' ! i ! j ! k))" for A
      by (subst has_shape3_tab [OF 1]) (simp add: tadd_def bop3_tab)
    then show ?thesis using Some by auto
  next
    case 2
    have "tadd (tab3 b c t A) g' = Some (tab3 b c t (\<lambda>i j k. A i j k + g' ! i ! j ! 0))" for A
      by (subst has_shape3_tab [OF 2]) (simp add: tadd_def bop3_tab)
    then show ?thesis using Some by auto
  qed
qed

lemma DDSConv_loop_masked_cong:
  assumes "tmul x x_mask = tmul x' x_mask"
  shows "DDSConv_loop E self (Some x_mask) (i # is) x = DDSConv_loop E self (Some x_mask) (i # is) x'"
  using assms by (simp add: apply_mask_def)

lemma tmul_mask_tab:
  assumes mk: "has_shape3 b 1 t x_mask"
  shows "tmul (tab3 b c t U) x_mask = Some (tab3 b c t (\<lambda>i j k. U i j k * x_mask ! i ! 0 ! k))"
proof -
  have "x_mask = tab3 b (Suc 0) t (\<lambda>i j k. x_mask ! i ! j ! k)"
    using has_shape3_tab [OF mk] by simp
  then show ?thesis
    using bop3_mask [of "(*)" b c t U "\<lambda>i j k. x_mask ! i ! j ! k"] by (simp add: tmul_def)
qed

lemma tmul_mask_agree:
  assumes mk: "has_shape3 b 1 t x_mask" and bin: "binary_mask x_mask"
    and ag: "\<And>i j k. i < b \<Longrightarrow> j < c \<Longrightarrow> k < t \<Longrightarrow> x_mask ! i ! 0 ! k = 1 \<Longrightarrow> U i j k = U' i j k"
  shows "tmul (tab3 b c t U) x_mask = tmul (tab3 b c t U') x_mask"
proof -
  have eq: "U i j k * x_mask ! i ! 0 ! k = U' i j k * x_mask ! i ! 0 ! k"
    if "i < b" "j < c" "k < t" for i j k
    using binary_mask_nth [OF bin mk that(1) _ that(3), of 0] ag [OF that] by auto
  have "tab3 b c t (\<lambda>i j k. U i j k * x_mask ! i ! 0 ! k) =
      tab3 b c t (\<lambda>i j k. U' i j k * x_mask ! i ! 0 ! k)"
    by (rule tab3_cong) (rule eq)
  then show ?thesis
    by (simp only: tmul_mask_tab [OF mk])
qed

lemma conv1x1_at_cong:
  "(\<And>j. j < cv_in_channels cv \<Longrightarrow> u j = u' j) \<Longrightarrow> conv1x1_at cv u oc = conv1x1_at cv u' oc"
  unfolding conv1x1_at_def by (auto intro!: arg_cong [where f = sum_list])

lemma has_shape3_unique:
  assumes "has_shape3 b c t x" and "has_shape3 b' c' t' x" and "0 < b" and "0 < c"
  shows "b' = b \<and> c' = c \<and> t' = t"
proof -
  from assms(1,3) obtain xb xs where x: "x = xb # xs"
    by (cases x) (auto simp add: has_shape3_def)
  with assms(1,4) obtain row rs where xb: "xb = row # rs"
    by (cases xb) (auto simp add: has_shape3_def has_shape2_def)
  from assms(1,2) x xb show ?thesis
    by (auto simp add: has_shape3_def has_shape2_def)
qed

lemma shape3_tab3:
  "shape3 (tab3 b c t X) = (if 0 < b \<and> 0 < c \<and> 0 < t then Some (b, c, t) else None)"
proof (cases "0 < b \<and> 0 < c \<and> 0 < t")
  case True
  then show ?thesis by (simp add: shape3_Some_iff)
next
  case False
  have "shape3 (tab3 b c t X) = None"
  proof (rule ccontr)
    assume "shape3 (tab3 b c t X) \<noteq> None"
    then obtain b' c' t' where "shape3 (tab3 b c t X) = Some (b', c', t')" by auto
    then have s: "has_shape3 b' c' t' (tab3 b c t X)" and p: "0 < b'" "0 < c'" "0 < t'"
      by (simp_all add: shape3_Some_iff)
    from has_shape3_unique [OF s has_shape3_tab3 p(1,2)] p False show False by simp
  qed
  with False show ?thesis by simp
qed

lemma ConvFlow_spline_params_masked:
  assumes pre: "pointwise_conv (cf_pre self)" and proj: "pointwise_conv (cf_proj self)"
    and mk: "has_shape3 b 1 t x_mask" and bin: "binary_mask x_mask"
    and g: "cond_shape b (cv_out_channels (cf_pre self)) t g"
    and sp: "ConvFlow_spline_params E self (tab3 b c t X) x_mask g = Some p"
  shows "ConvFlow_spline_params E self (tab3 b c t (\<lambda>i j k. X i j k * x_mask ! i ! 0 ! k))
           x_mask g = Some p"
proof -
  let ?x0 = "tab3 b c t X"
  let ?y0 = "tab3 b c t (\<lambda>i j k. X i j k * x_mask ! i ! 0 ! k)"
  let ?fc = "cv_out_channels (cf_pre self)"
  let ?A = "\<lambda>i oc k. conv1x1_at (cf_pre self) (\<lambda>j. X i j k) oc"
  let ?A' = "\<lambda>i oc k. conv1x1_at (cf_pre self) (\<lambda>j. X i j k * x_mask ! i ! 0 ! k) oc"
  from sp obtain h1 h2 h3 h4 where
    c1: "Conv1d_forward (cf_pre self) ?x0 = Some h1" and
    d2: "DDSConv_forward E (cf_convs self) h1 (Some x_mask) g = Some h2" and
    c3: "Conv1d_forward (cf_proj self) h2 = Some h3" and
    m4: "tmul h3 x_mask = Some h4"
    unfolding ConvFlow_spline_params_def by (auto simp add: bind_eq_Some_conv)
  from Conv1d_forward_SomeD [OF c1] have pos: "0 < b" "0 < c" "0 < t"
    and cin: "cv_in_channels (cf_pre self) = c"
    by (auto simp add: shape3_tab3 split: if_splits)
  have sh: "shape3 ?y0 = shape3 ?x0"
    by (simp add: shape3_tab3)
  have h1: "h1 = tab3 b ?fc t ?A"
    using c1 Conv1d_forward_pointwise [OF pre pos(1,3), of X] pos(2) cin by simp
  have c1': "Conv1d_forward (cf_pre self) ?y0 = Some (tab3 b ?fc t ?A')"
    using Conv1d_forward_pointwise [OF pre pos(1,3), of "\<lambda>i j k. X i j k * x_mask ! i ! 0 ! k"]
      pos(2) cin by simp
  have ag: "?A' i oc k = ?A i oc k" if "x_mask ! i ! 0 ! k = 1" for i oc k
    by (rule conv1x1_at_cong) (simp add: that)
  from cond_add_tab [OF g] obtain G where
    G: "\<And>A. (case g of None \<Rightarrow> Some (tab3 b ?fc t A) | Some g' \<Rightarrow> tadd (tab3 b ?fc t A) g')
           = Some (tab3 b ?fc t (\<lambda>i j k. A i j k + G i j k))"
    by blast
  let ?n = "dds_n_layers (cf_convs self)"
  have dd: "DDSConv_forward E (cf_convs self) (tab3 b ?fc t A) (Some x_mask) g =
      DDSConv_loop E (cf_convs self) (Some x_mask) [0..<?n]
        (tab3 b ?fc t (\<lambda>i j k. A i j k + G i j k))" for A
    by (simp add: DDSConv_forward_def G)
  have "\<exists>h2' h3'. DDSConv_forward E (cf_convs self) (tab3 b ?fc t ?A') (Some x_mask) g = Some h2' \<and>
      Conv1d_forward (cf_proj self) h2' = Some h3' \<and> tmul h3' x_mask = Some h4"
  proof (cases "?n = 0")
    case True
    have h2: "h2 = tab3 b ?fc t (\<lambda>i j k. ?A i j k + G i j k)"
      using d2 by (simp add: h1 dd True)
    from Conv1d_forward_SomeD [OF c3] have fc: "0 < ?fc"
      and pin: "cv_in_channels (cf_proj self) = ?fc"
      by (auto simp add: h2 shape3_tab3 split: if_splits)
    let ?B = "\<lambda>i oc k. conv1x1_at (cf_proj self) (\<lambda>j. ?A i j k + G i j k) oc"
    let ?B' = "\<lambda>i oc k. conv1x1_at (cf_proj self) (\<lambda>j. ?A' i j k + G i j k) oc"
    have h3: "h3 = tab3 b (cv_out_channels (cf_proj self)) t ?B"
      using c3 Conv1d_forward_pointwise [OF proj pos(1,3), of "\<lambda>i j k. ?A i j k + G i j k"]
        fc pin by (simp add: h2)
    have c3': "Conv1d_forward (cf_proj self) (tab3 b ?fc t (\<lambda>i j k. ?A' i j k + G i j k)) =
        Some (tab3 b (cv_out_channels (cf_proj self)) t ?B')"
      using Conv1d_forward_pointwise [OF proj pos(1,3), of "\<lambda>i j k. ?A' i j k + G i j k"]
        fc pin by simp
    have "tmul (tab3 b (cv_out_channels (cf_proj self)) t ?B') x_mask =
        tmul (tab3 b (cv_out_channels (cf_proj self)) t ?B) x_mask"
      by (rule tmul_mask_agree [OF mk bin]) (rule conv1x1_at_cong, simp add: ag)
    with m4 have "tmul (tab3 b (cv_out_channels (cf_proj self)) t ?B') x_mask = Some h4"
      by (simp add: h3)
    with c3' show ?thesis
      by (simp add: dd True)
  next
    case False
    then have up: "[0..<?n] = 0 # [Suc 0..<?n]"
      by (simp add: upt_conv_Cons)
    have "tmul (tab3 b ?fc t (\<lambda>i j k. ?A' i j k + G i j k)) x_mask =
        tmul (tab3 b ?fc t (\<lambda>i j k. ?A i j k + G i j k)) x_mask"
      by (rule tmul_mask_agree [OF mk bin]) (simp add: ag)
    then have "DDSConv_forward E (cf_convs self) (tab3 b ?fc t ?A') (Some x_mask) g =
        DDSConv_forward E (cf_convs self) (tab3 b ?fc t ?A) (Some x_mask) g"
      unfolding dd up by (rule DDSConv_loop_masked_cong)
    with d2 c3 m4 show ?thesis
      by (simp add: h1)
  qed
  then obtain h2' h3' where
    d2': "DDSConv_forward E (cf_convs self) (tab3 b ?fc t ?A') (Some x_mask) g = Some h2'" and
    c3': "Conv1d_forward (cf_proj self) h2' = Some h3'" and m4': "tmul h3' x_mask = Some h4"
    by blast
  have "ConvFlow_spline_params E self ?y0 x_mask g = ConvFlow_spline_params E self ?x0 x_mask g"
    unfolding ConvFlow_spline_params_def
    by (simp only: c1 d2 c3 m4 c1' d2' c3' m4' sh Option.bind.bind_lunit)
  with sp show ?thesis by simp
qed

lemma pointwise_kernel_tab:
  assumes "0 < b" "0 < c" "0 < t"
    and "has_shape3 b c t uw" "has_shape3 b c t uh" "has_shape3 b c t ud"
  shows "pointwise_kernel s (tab3 b c t U) uw uh ud reverse tail_bound =
     Some (tab3 b c t (\<lambda>i j k. fst (s (U i j k) (uw ! i ! j ! k) (uh ! i ! j ! k)
                                     (ud ! i ! j ! k) reverse tail_bound)),
           tab3 b c t (\<lambda>i j k. snd (s (U i j k) (uw ! i ! j ! k) (uh ! i ! j ! k)
                                     (ud ! i ! j ! k) reverse tail_bound)))"
  using assms by (simp add: pointwise_kernel_def shape3_tab3 tab3_nth cong: tab3_cong')

lemma pointwise_kernel_SomeD:
  assumes "pointwise_kernel s x uw uh ud reverse tail_bound = Some (y, l)"
  shows "\<exists>b c t. shape3 x = Some (b, c, t) \<and>
           has_shape3 b c t uw \<and> has_shape3 b c t uh \<and> has_shape3 b c t ud"
  using assms by (auto simp add: pointwise_kernel_def split: option.splits if_splits)

lemma split2_tab:
  assumes "0 < b" "0 < h" "0 < t"
  shows "split2 h (tab3 b (h + h) t F) =
           Some (tab3 b h t F, tab3 b h t (\<lambda>i j k. F i (j + h) k))"
  using assms by (simp add: split2_def shape3_tab3 take_tab3 drop_tab3)

lemma cat1_tab:
  assumes "0 < b" "0 < c" "0 < c'" "0 < t"
  shows "cat1 (tab3 b c t F) (tab3 b c' t F') =
           Some (tab3 b (c + c') t (\<lambda>i j k. if j < c then F i j k else F' i (j - c) k))"
  using assms by (simp add: cat1_def shape3_tab3 cat_tab3)

lemma ConvFlow_roundtrip:
  assumes pre: "pointwise_conv (cf_pre self)" and proj: "pointwise_conv (cf_proj self)"
    and K: "piecewise_rational_quadratic_transform E = pointwise_kernel s"
    and inv: "kernel_inverse s"
    and x: "has_shape3 b c t x" and mk: "has_shape3 b 1 t x_mask" and bin: "binary_mask x_mask"
    and g: "cond_shape b (cv_out_channels (cf_pre self)) t g"
    and fw: "ConvFlow_forward E self x x_mask g False = Some r"
  shows "ConvFlow_forward E self (tensor_of r) x_mask g True =
           Some (InverseResult (tab3 b c t (\<lambda>i j k. x ! i ! j ! k * x_mask ! i ! 0 ! k)))"
proof -
  let ?h = "cf_half_channels self"
  let ?tb = "cf_tail_bound self"
  let ?M = "\<lambda>i k. x_mask ! i ! 0 ! k"
  let ?X = "\<lambda>i j k. x ! i ! j ! k"
  from fw obtain x0 x1 uw uh ud y1 lad xc y l where
    sp: "split2 ?h x = Some (x0, x1)" and
    pr: "ConvFlow_spline_params E self x0 x_mask g = Some (uw, uh, ud)" and
    kf: "pointwise_kernel s x1 uw uh ud False ?tb = Some (y1, lad)" and
    ct: "cat1 x0 y1 = Some xc" and ml: "tmul xc x_mask = Some y" and
    r: "r = ForwardResult y (sum12 l)"
    by (rule ConvFlow_forward_SomeE) (simp_all add: K)
  \<comment> \<open>the shapes\<close>
  from split2_SomeD [OF sp] obtain b' t' where sx: "shape3 x = Some (b', ?h + ?h, t')"
    by blast
  then have x': "has_shape3 b' (?h + ?h) t' x" and pos': "0 < b'" "0 < ?h" "0 < t'"
    by (simp_all add: shape3_Some_iff)
  from has_shape3_unique [OF x' x pos'(1)] pos'
  have c: "c = ?h + ?h" and pos: "0 < b" "0 < ?h" "0 < t" and b': "b' = b" and t': "t' = t"
    by simp_all
  have xt: "x = tab3 b (?h + ?h) t ?X"
    using has_shape3_tab [OF x] c by simp
  have x0: "x0 = tab3 b ?h t ?X" and x1: "x1 = tab3 b ?h t (\<lambda>i j k. ?X i (j + ?h) k)"
    using sp split2_tab [OF pos, of ?X] xt by simp_all
  \<comment> \<open>forward\<close>
  from pointwise_kernel_SomeD [OF kf] have us:
    "has_shape3 b ?h t uw" "has_shape3 b ?h t uh" "has_shape3 b ?h t ud"
    using pos by (auto simp add: x1 shape3_tab3)
  let ?S = "\<lambda>rev v i j k. s v (uw ! i ! j ! k) (uh ! i ! j ! k) (ud ! i ! j ! k) rev ?tb"
  let ?Y1 = "\<lambda>i j k. fst (?S False (?X i (j + ?h) k) i j k)"
  have y1: "y1 = tab3 b ?h t ?Y1"
    using kf pointwise_kernel_tab [OF pos us, of s "\<lambda>i j k. ?X i (j + ?h) k" False ?tb]
    by (simp add: x1)
  let ?XC = "\<lambda>i j k. if j < ?h then ?X i j k else ?Y1 i (j - ?h) k"
  have xc: "xc = tab3 b (?h + ?h) t ?XC"
    using ct cat1_tab [OF pos(1,2,2,3), of ?X ?Y1] by (simp add: x0 y1)
  have y: "y = tab3 b (?h + ?h) t (\<lambda>i j k. ?XC i j k * ?M i k)"
    using ml tmul_mask_tab [OF mk, of "?h + ?h" ?XC] by (simp add: xc)
  \<comment> \<open>inverse\<close>
  let ?Y0 = "\<lambda>i j k. ?X i j k * ?M i k"
  let ?Y1M = "\<lambda>i j k. ?Y1 i j k * ?M i k"
  have sp': "split2 ?h y = Some (tab3 b ?h t ?Y0, tab3 b ?h t ?Y1M)"
    unfolding y using split2_tab [OF pos, of "\<lambda>i j k. ?XC i j k * ?M i k"]
    by (simp cong: tab3_cong')
  have pr': "ConvFlow_spline_params E self (tab3 b ?h t ?Y0) x_mask g = Some (uw, uh, ud)"
    using pr ConvFlow_spline_params_masked [OF pre proj mk bin g, of E ?h ?X "(uw, uh, ud)"]
    by (simp add: x0)
  let ?X1 = "\<lambda>i j k. fst (?S True (?Y1M i j k) i j k)"
  let ?L1 = "\<lambda>i j k. snd (?S True (?Y1M i j k) i j k)"
  have kf': "pointwise_kernel s (tab3 b ?h t ?Y1M) uw uh ud True ?tb =
      Some (tab3 b ?h t ?X1, tab3 b ?h t ?L1)"
    by (rule pointwise_kernel_tab [OF pos us])
  let ?ZC = "\<lambda>i j k. if j < ?h then ?Y0 i j k else ?X1 i (j - ?h) k"
  have ct': "cat1 (tab3 b ?h t ?Y0) (tab3 b ?h t ?X1) = Some (tab3 b (?h + ?h) t ?ZC)"
    by (rule cat1_tab [OF pos(1,2,2,3)])
  have ml': "tmul (tab3 b (?h + ?h) t ?ZC) x_mask =
      Some (tab3 b (?h + ?h) t (\<lambda>i j k. ?ZC i j k * ?M i k))"
    by (rule tmul_mask_tab [OF mk])
  have ll': "tmul (tab3 b ?h t ?L1) x_mask = Some (tab3 b ?h t (\<lambda>i j k. ?L1 i j k * ?M i k))"
    by (rule tmul_mask_tab [OF mk])
  have rv: "ConvFlow_forward E self y x_mask g True =
      Some (InverseResult (tab3 b (?h + ?h) t (\<lambda>i j k. ?ZC i j k * ?M i k)))"
    using ConvFlow_forward_SomeI [of self y "tab3 b ?h t ?Y0" "tab3 b ?h t ?Y1M" E x_mask g
        uw uh ud True "tab3 b ?h t ?X1" "tab3 b ?h t ?L1", OF sp' pr' _ ct' ml' ll'] kf'
    by (simp add: K)
  \<comment> \<open>the values\<close>
  have "?ZC i j k * ?M i k = ?X i j k * ?M i k" if "i < b" "j < ?h + ?h" "k < t" for i j k
  proof -
    from binary_mask_nth [OF bin mk that(1) _ that(3), of 0]
    consider "?M i k = 0" | "?M i k = 1" by auto
    then show ?thesis
    proof cases
      case 1
      then show ?thesis by simp
    next
      case 2
      show ?thesis
      proof (cases "j < ?h")
        case True
        then show ?thesis using 2 by simp
      next
        case False
        then have j: "j - ?h + ?h = j" by simp
        have "?X1 i (j - ?h) k = ?X i j k"
          using inv 2 by (simp add: kernel_inverse_def j)
        then show ?thesis using False by simp
      qed
    qed
  qed
  then have "tab3 b (?h + ?h) t (\<lambda>i j k. ?ZC i j k * ?M i k) = tab3 b c t (\<lambda>i j k. ?X i j k * ?M i k)"
    unfolding c by (rule tab3_cong)
  with rv show ?thesis
    by (simp add: r)
qed

lemma ConvFlow_init_pointwise:
  assumes "ConvFlow_init in_channels filter_channels kernel_size n_layers num_bins tail_bound
             w_pre w_convs w_proj = Some self"
  shows "pointwise_conv (cf_pre self)" and "pointwise_conv (cf_proj self)"
    and "cv_out_channels (cf_pre self) = filter_channels"
  using assms
  by (auto simp add: ConvFlow_init_def Let_def bind_eq_Some_conv Conv1d_init_def
      pointwise_conv_def split: if_splits)

lemma kernel_inverse_affine: "kernel_inverse affine_spline"
  by (simp add: kernel_inverse_def affine_spline_def)

text \<open>
  C1 as stated fails.  Log clamps: from \<open>x = -1\<close> under a full mask the round trip
  returns \<open>1e-5\<close>, off by more than the tolerance \<open>1e-4\<close>.  And the transforms zero the
  padded positions: from \<open>x = 5\<close> under a mask of 0 the round trip of ElementwiseAffine
  returns 0.
\<close>

theorem C1_roundtrip_counterexample:
  "Option.bind (Log_forward [[[- 1]]] [[[1]]] False) (\<lambda>r. Log_forward (tensor_of r) [[[1]]] True)
     = Some (InverseResult [[[1 / 100000]]]) \<and>
   \<not> \<bar>1 / 100000 - (- 1 :: real)\<bar> < 1 / 10000 \<and>
   Option.bind
     (ElementwiseAffine_forward (ElementwiseAffine_init 1) [[[5]]] [[[0]]] False)
     (\<lambda>r. ElementwiseAffine_forward (ElementwiseAffine_init 1) (tensor_of r) [[[0]]] True)
     = Some (InverseResult [[[0]]]) \<and>
   \<not> \<bar>0 - (5 :: real)\<bar> < 1 / 10000"
  by (simp add: Log_forward_def ElementwiseAffine_forward_def ElementwiseAffine_init_def
      clamp_min_def unsqueeze0_def tsub_def conv_eval)

text \<open>
  C1, amended.  Take an input \<open>x\<close> of shape \<open>[b, c, t]\<close> and a mask of shape \<open>[b, 1, t]\<close>
  with values 0 and 1.  In real arithmetic, the inverse mode applied to the result of
  the forward mode returns
  \<^item> for Log, \<open>max(x, 1e-5) * mask\<close>;
  \<^item> for ElementwiseAffine (parameters of shape \<open>[c, 1]\<close>), \<open>x * mask\<close>;
  \<^item> for Flip, \<open>x\<close> itself;
  \<^item> for ConvFlow, \<open>x * mask\<close> whenever the forward mode returns, given that \<open>pre\<close> and
    \<open>proj\<close> are convolutions of kernel size 1 as the constructor builds them, and that the
    spline kernel acts on each position by a scalar map whose inverse mode undoes its
    forward mode.
  So \<open>x\<close> is reconstructed at every position where the mask is 1 (for Log, where also
  \<open>x \<ge> 1e-5\<close>), and every position where the mask is 0 comes out as 0.
\<close>

theorem C1_roundtrip:
  assumes x: "has_shape3 b c t x" and mk: "has_shape3 b 1 t x_mask" and bin: "binary_mask x_mask"
    and m: "has_shape2 c 1 (ea_m ea)" and l: "has_shape2 c 1 (ea_logs ea)"
    and pre: "pointwise_conv (cf_pre cf)" and proj: "pointwise_conv (cf_proj cf)"
    and K: "piecewise_rational_quadratic_transform E = pointwise_kernel s"
    and inv: "kernel_inverse s"
    and g: "cond_shape b (cv_out_channels (cf_pre cf)) t g"
  shows "Option.bind (Log_forward x x_mask False) (\<lambda>r. Log_forward (tensor_of r) x_mask True)
           = Some (InverseResult
               (tab3 b c t (\<lambda>i j k. max (x ! i ! j ! k) (1 / 100000) * x_mask ! i ! 0 ! k))) \<and>
         Option.bind (ElementwiseAffine_forward ea x x_mask False)
             (\<lambda>r. ElementwiseAffine_forward ea (tensor_of r) x_mask True)
           = Some (InverseResult (tab3 b c t (\<lambda>i j k. x ! i ! j ! k * x_mask ! i ! 0 ! k))) \<and>
         tensor_of (Flip_forward (tensor_of (Flip_forward x x_mask False)) x_mask True) = x \<and>
         (\<forall>r. ConvFlow_forward E cf x x_mask g False = Some r \<longrightarrow>
              ConvFlow_forward E cf (tensor_of r) x_mask g True
                = Some (InverseResult (tab3 b c t (\<lambda>i j k. x ! i ! j ! k * x_mask ! i ! 0 ! k))))"
proof (intro conjI allI impI)
  show "Option.bind (Log_forward x x_mask False) (\<lambda>r. Log_forward (tensor_of r) x_mask True)
           = Some (InverseResult
               (tab3 b c t (\<lambda>i j k. max (x ! i ! j ! k) (1 / 100000) * x_mask ! i ! 0 ! k)))"
    by (rule Log_roundtrip [OF x mk bin])
  show "Option.bind (ElementwiseAffine_forward ea x x_mask False)
             (\<lambda>r. ElementwiseAffine_forward ea (tensor_of r) x_mask True)
           = Some (InverseResult (tab3 b c t (\<lambda>i j k. x ! i ! j ! k * x_mask ! i ! 0 ! k)))"
    by (rule ElementwiseAffine_roundtrip [OF x mk bin m l])
  show "tensor_of (Flip_forward (tensor_of (Flip_forward x x_mask False)) x_mask True) = x"
    by (simp add: Flip_forward_def Let_def flip1_flip1)
next
  fix r
  assume "ConvFlow_forward E cf x x_mask g False = Some r"
  then show "ConvFlow_forward E cf (tensor_of r) x_mask g True
                = Some (InverseResult (tab3 b c t (\<lambda>i j k. x ! i ! j ! k * x_mask ! i ! 0 ! k)))"
    by (rule ConvFlow_roundtrip [OF pre proj K inv x mk bin g])
qed

lemma affine_forward:
  "Option.bind example_flow
     (\<lambda>cf. ConvFlow_forward affine_env cf [[[1, 2], [7, 8]]] [[[1, 0]]] None False)
     = Some (ForwardResult [[[1, 0], [15, 0]]] [ln 2])"
  by (simp add: flow_eval conv_eval upt_eval)

theorem C1_roundtrip_witness:
  "has_shape3 1 2 2 [[[1, 2], [7, 8 :: real]]] \<and> has_shape3 1 1 2 [[[1, 0 :: real]]] \<and>
   binary_mask [[[1, 0]]] \<and>
   has_shape2 2 1 (ea_m \<lparr>ea_channels = 2, ea_m = [[1], [2]], ea_logs = [[0], [1]]\<rparr>) \<and>
   has_shape2 2 1 (ea_logs \<lparr>ea_channels = 2, ea_m = [[1], [2]], ea_logs = [[0], [1]]\<rparr>) \<and>
   map_option (\<lambda>cf. pointwise_conv (cf_pre cf) \<and> pointwise_conv (cf_proj cf) \<and>
                    cond_shape 1 (cv_out_channels (cf_pre cf)) 2 None) example_flow = Some True \<and>
   piecewise_rational_quadratic_transform affine_env = pointwise_kernel affine_spline \<and>
   kernel_inverse affine_spline \<and>
   Option.bind (Log_forward [[[1, 2], [7, 8]]] [[[1, 0]]] False)
       (\<lambda>r. Log_forward (tensor_of r) [[[1, 0]]] True)
     = Some (InverseResult [[[1, 0], [7, 0]]]) \<and>
   Option.bind
       (ElementwiseAffine_forward \<lparr>ea_channels = 2, ea_m = [[1], [2]], ea_logs = [[0], [1]]\<rparr>
          [[[1, 2], [7, 8]]] [[[1, 0]]] False)
       (\<lambda>r. ElementwiseAffine_forward \<lparr>ea_channels = 2, ea_m = [[1], [2]], ea_logs = [[0], [1]]\<rparr>
          (tensor_of r) [[[1, 0]]] True)
     = Some (InverseResult [[[1, 0], [7, 0]]]) \<and>
   Option.bind example_flow
       (\<lambda>cf. ConvFlow_forward affine_env cf [[[1, 2], [7, 8]]] [[[1, 0]]] None False)
     = Some (ForwardResult [[[1, 0], [15, 0]]] [ln 2]) \<and>
   Option.bind example_flow
       (\<lambda>cf. ConvFlow_forward affine_env cf [[[1, 0], [15, 0]]] [[[1, 0]]] None True)
     = Some (InverseResult [[[1, 0], [7, 0]]])"
proof -
  obtain cf where cf: "example_flow = Some cf"
    using example_flow_Some by blast
  have x: "has_shape3 1 2 2 [[[1, 2], [7, 8 :: real]]]"
    and mk: "has_shape3 1 1 2 [[[1, 0 :: real]]]"
    and m: "has_shape2 2 1 (ea_m \<lparr>ea_channels = 2, ea_m = [[1], [2]], ea_logs = [[0], [1]]\<rparr>)"
    and l: "has_shape2 2 1 (ea_logs \<lparr>ea_channels = 2, ea_m = [[1], [2]], ea_logs = [[0], [1]]\<rparr>)"
    by (simp_all add: has_shape3_def has_shape2_def)
  have bin: "binary_mask [[[1, 0]]]"
    by (simp add: binary_mask_def)
  have pw: "pointwise_conv (cf_pre cf)" "pointwise_conv (cf_proj cf)"
    using ConvFlow_init_pointwise cf by (auto simp add: example_flow_def)
  have K: "piecewise_rational_quadratic_transform affine_env = pointwise_kernel affine_spline"
    by (simp add: affine_env_def)
  have g: "cond_shape 1 (cv_out_channels (cf_pre cf)) 2 None"
    by (simp add: cond_shape_def)
  have fw: "ConvFlow_forward affine_env cf [[[1, 2], [7, 8]]] [[[1, 0]]] None False
      = Some (ForwardResult [[[1, 0], [15, 0]]] [ln 2])"
    using affine_forward by (simp add: cf)
  show ?thesis
    using C1_roundtrip [OF x mk bin m l pw K kernel_inverse_affine g] x mk bin m l pw K
      kernel_inverse_affine g fw
    by (simp add: cf tab3_def tab2_def upt_eval)
qed

end
